theory Spec2Isabelle
  imports Complex_Main
begin


section \<open>Robot\_TMS: \<^verbatim>\<open>robot/elfin_processing.py\<close>\<close>

text \<open>
  The module computes with numpy double precision floats (and OpenCV single precision
  floats inside the Kalman filter).  The embedding computes over the reals: every finite
  float operation is read as the exact operation.  A float that is not finite (the
  result of a numpy division by zero, \<^verbatim>\<open>inf\<close> or \<^verbatim>\<open>nan\<close>) is the value \<open>None\<close> of
  \<open>npfloat\<close>; numpy raises no exception there, so it is a value and not an error.
  A raised Python exception is the \<open>Inl\<close> side of a sum type.
\<close>

subsection \<open>Vectors, non-finite floats\<close>

type_synonym vec = "real list"

type_synonym npfloat = "real option"

datatype error = ValueError | IndexError

definition is_pose :: "vec \<Rightarrow> bool" where
  "is_pose p = (length p = 6)"

text \<open>numpy \<^verbatim>\<open>x / y\<close> on floats: a zero divisor gives \<^verbatim>\<open>inf\<close> or \<^verbatim>\<open>nan\<close> and a warning.\<close>

definition np_div :: "real \<Rightarrow> real \<Rightarrow> npfloat" where
  "np_div x y = (if y = 0 then None else Some (x / y))"

definition vsub :: "vec \<Rightarrow> vec \<Rightarrow> vec" where
  "vsub xs ys = map2 (-) xs ys"

text \<open>\<^verbatim>\<open>rows.mean(axis=0)\<close>: the mean of every column.\<close>

definition mean_axis0 :: "vec list \<Rightarrow> vec" where
  "mean_axis0 rows = map (\<lambda>col. sum_list col / real (length col)) (transpose rows)"

text \<open>\<^verbatim>\<open>np.std\<close> of a list of vectors: the population standard deviation of the flattened
  entries; one non-finite entry makes the result \<^verbatim>\<open>nan\<close>.\<close>

definition np_std :: "npfloat list list \<Rightarrow> npfloat" where
  "np_std rows =
     (let xs = concat rows in
      if list_all (\<lambda>x. x \<noteq> None) xs then
        (let ys = map the xs;
             m = sum_list ys / real (length ys)
         in Some (sqrt (sum_list (map (\<lambda>y. (y - m)\<^sup>2) ys) / real (length ys))))
      else None)"

text \<open>\<^verbatim>\<open>x > y\<close> on floats: every comparison with \<^verbatim>\<open>nan\<close> is false.\<close>

definition np_gt :: "npfloat \<Rightarrow> real \<Rightarrow> bool" where
  "np_gt x y = (case x of None \<Rightarrow> False | Some v \<Rightarrow> v > y)"

subsection \<open>The OpenCV Kalman filter with 2 states and 1 measurement\<close>

type_synonym vec2 = "real \<times> real"
type_synonym mat2 = "vec2 \<times> vec2"

definition mm2 :: "mat2 \<Rightarrow> mat2 \<Rightarrow> mat2" where
  "mm2 X Y = (case X of ((a, b), (c, d)) \<Rightarrow> case Y of ((e, f), (g, h)) \<Rightarrow>
     ((a * e + b * g, a * f + b * h), (c * e + d * g, c * f + d * h)))"

definition transpose2 :: "mat2 \<Rightarrow> mat2" where
  "transpose2 X = (case X of ((a, b), (c, d)) \<Rightarrow> ((a, c), (b, d)))"

definition add2 :: "mat2 \<Rightarrow> mat2 \<Rightarrow> mat2" where
  "add2 X Y = (case X of ((a, b), (c, d)) \<Rightarrow> case Y of ((e, f), (g, h)) \<Rightarrow>
     ((a + e, b + f), (c + g, d + h)))"

definition scale2 :: "real \<Rightarrow> mat2 \<Rightarrow> mat2" where
  "scale2 k X = (case X of ((a, b), (c, d)) \<Rightarrow> ((k * a, k * b), (k * c, k * d)))"

definition mv2 :: "mat2 \<Rightarrow> vec2 \<Rightarrow> vec2" where
  "mv2 X v = (case X of ((a, b), (c, d)) \<Rightarrow> case v of (x, y) \<Rightarrow>
     (a * x + b * y, c * x + d * y))"

text \<open>
  \<^verbatim>\<open>cv2.KalmanFilter(2, 1, 0)\<close>: the object holds the 2-vector of the state, its 2x2 error
  covariance, and the model matrices; the measurement matrix is 1x2 and the measurement
  noise covariance 1x1.  All of them start at zero.
\<close>

record KalmanFilter =
  statePre :: vec2
  statePost :: vec2
  errorCovPre :: mat2
  errorCovPost :: mat2
  transitionMatrix :: mat2
  measurementMatrix :: vec2
  processNoiseCov :: mat2
  measurementNoiseCov :: real

definition cv2_KalmanFilter :: KalmanFilter where
  "cv2_KalmanFilter =
     \<lparr> statePre = (0, 0), statePost = (0, 0),
       errorCovPre = ((0, 0), (0, 0)), errorCovPost = ((0, 0), (0, 0)),
       transitionMatrix = ((0, 0), (0, 0)), measurementMatrix = (0, 0),
       processNoiseCov = ((0, 0), (0, 0)), measurementNoiseCov = 0 \<rparr>"

text \<open>\<^verbatim>\<open>predict()\<close>: \<open>x' = A x\<close>, \<open>P' = A P A\<^sup>T + Q\<close>; both are also copied to the
  posterior fields.  The predicted state is returned.\<close>

definition predict :: "KalmanFilter \<Rightarrow> vec2 \<times> KalmanFilter" where
  "predict f =
     (let x' = mv2 (transitionMatrix f) (statePost f);
          P' = add2 (mm2 (mm2 (transitionMatrix f) (errorCovPost f))
                         (transpose2 (transitionMatrix f)))
                    (processNoiseCov f)
      in (x', f\<lparr>statePre := x', statePost := x', errorCovPre := P', errorCovPost := P'\<rparr>))"

text \<open>\<^verbatim>\<open>correct(z)\<close>: \<open>t\<^sub>2 = H P'\<close>, \<open>t\<^sub>3 = t\<^sub>2 H\<^sup>T + R\<close>, gain \<open>K = (t\<^sub>2 / t\<^sub>3)\<^sup>T\<close>,
  \<open>x = x' + K (z - H x')\<close>, \<open>P = P' - K t\<^sub>2\<close>.  OpenCV solves the 1x1 system by SVD, which
  gives the zero gain for \<open>t\<^sub>3 = 0\<close>; so does the division of HOL.\<close>

definition correct :: "KalmanFilter \<Rightarrow> real \<Rightarrow> KalmanFilter" where
  "correct f z =
     (case measurementMatrix f of (h1, h2) \<Rightarrow>
      case errorCovPre f of ((a, b), (c, d)) \<Rightarrow>
      case statePre f of (x1, x2) \<Rightarrow>
      let t1 = h1 * a + h2 * c;
          t2 = h1 * b + h2 * d;
          t3 = t1 * h1 + t2 * h2 + measurementNoiseCov f;
          k1 = t1 / t3;
          k2 = t2 / t3;
          t5 = z - (h1 * x1 + h2 * x2)
      in f\<lparr>statePost := (x1 + k1 * t5, x2 + k2 * t5),
            errorCovPost := ((a - k1 * t1, b - k1 * t2), (c - k2 * t1, d - k2 * t2))\<rparr>)"

subsection \<open>\<^verbatim>\<open>class KalmanTracker\<close>\<close>

record KalmanTracker =
  state_num :: nat
  filter_k :: KalmanFilter
  state :: vec2
  measurement :: vec
  prediction :: vec2

definition KalmanTracker_init :: "nat \<Rightarrow> real \<Rightarrow> real \<Rightarrow> KalmanTracker" where
  "KalmanTracker_init sn covariance_process covariance_measure =
     \<lparr> state_num = sn,
       filter_k = cv2_KalmanFilter
         \<lparr> transitionMatrix := ((1, 1), (0, 1)),
           measurementMatrix := (1, 1),
           processNoiseCov := scale2 covariance_process ((1, 0), (0, 1)),
           measurementNoiseCov := 1 * covariance_measure \<rparr>,
       state = (0, 0),
       measurement = [1, 1],
       prediction = (0, 0) \<rparr>"

definition update_kalman :: "KalmanTracker \<Rightarrow> vec \<Rightarrow> KalmanTracker" where
  "update_kalman k m =
     (case predict (filter_k k) of (p, f1) \<Rightarrow>
      let f2 = correct f1 (m ! 0)
      in k\<lparr>prediction := p, measurement := [m ! 0], filter_k := f2, state := statePost f2\<rparr>)"

subsection \<open>Matrices\<close>

text \<open>A two-dimensional numpy array is the list of its rows.  An unset calibration
  matrix is Python's \<^verbatim>\<open>None\<close>, here \<open>None\<close> of \<open>mat option\<close>.\<close>

type_synonym mat = "real list list"

subsection \<open>\<^verbatim>\<open>class TrackerProcessing\<close>: the state\<close>

record TrackerProcessing =
  coord_vel :: "vec list"
  timestamp :: "real list"
  velocity_vector :: "npfloat list list"
  kalman_coord_vector :: "vec list"
  velocity_std :: npfloat
  m_tracker_to_robot :: "mat option"
  matrix_tracker_fiducials :: "mat option list"
  tracker_stabilizers :: "KalmanTracker list"

definition TrackerProcessing_init :: TrackerProcessing where
  "TrackerProcessing_init =
     \<lparr> coord_vel = [], timestamp = [], velocity_vector = [], kalman_coord_vector = [],
       velocity_std = Some 0,
       m_tracker_to_robot = None,
       matrix_tracker_fiducials = replicate 3 None,
       tracker_stabilizers = replicate 6 (KalmanTracker_init 2 (1 / 1000) (1 / 10)) \<rparr>"

definition SetMatrixTrackerFiducials :: "TrackerProcessing \<Rightarrow> mat option list \<Rightarrow> TrackerProcessing" where
  "SetMatrixTrackerFiducials s fids = s\<lparr>matrix_tracker_fiducials := fids\<rparr>"

subsection \<open>\<^verbatim>\<open>kalman_filter\<close>\<close>

text \<open>The loop over \<^verbatim>\<open>zip(pose_np, self.tracker_stabilizers)\<close> updates one stabilizer per
  pose component, in place; a stabilizer beyond the pose's length is not touched.\<close>

definition kalman_filter :: "TrackerProcessing \<Rightarrow> vec \<Rightarrow> vec \<times> TrackerProcessing" where
  "kalman_filter s coord_tracker =
     (let pose_np = take 3 coord_tracker @ drop 3 coord_tracker;
          updated = map (\<lambda>(v, ps_stb). update_kalman ps_stb [v])
                        (zip pose_np (tracker_stabilizers s));
          stabilizers = updated @ drop (length updated) (tracker_stabilizers s);
          coord_kalman = map (\<lambda>ps_stb. fst (state ps_stb)) updated;
          kcv = kalman_coord_vector s @ [take 3 coord_kalman]
      in if length kcv < 20
         then (coord_tracker,
               s\<lparr>tracker_stabilizers := stabilizers, kalman_coord_vector := kcv\<rparr>)
         else (coord_kalman,
               s\<lparr>tracker_stabilizers := stabilizers, kalman_coord_vector := tl kcv\<rparr>))"

subsection \<open>\<^verbatim>\<open>estimate_head_velocity\<close> and \<^verbatim>\<open>compute_head_move_threshold\<close>\<close>

definition estimate_head_velocity :: "vec list \<Rightarrow> real list \<Rightarrow> npfloat list \<times> vec" where
  "estimate_head_velocity cv ts =
     (let coord_init = mean_axis0 (take (length cv div 2) cv);
          coord_final = mean_axis0 (drop (length cv div 2) cv);
          distance = vsub coord_final coord_init
      in (map (\<lambda>d. np_div d (last ts - hd ts)) distance, distance))"

text \<open>
  \<^verbatim>\<open>const.ROBOT_HEAD_VELOCITY_THRESHOLD\<close> is the parameter \<open>threshold\<close>; the clock value
  read by \<^verbatim>\<open>time()\<close> is the parameter \<open>now\<close>.
\<close>

definition compute_head_move_threshold ::
    "real \<Rightarrow> TrackerProcessing \<Rightarrow> vec \<Rightarrow> real \<Rightarrow> bool \<times> TrackerProcessing" where
  "compute_head_move_threshold threshold s current_ref now =
     (let cv = coord_vel s @ [current_ref];
          ts = timestamp s @ [now]
      in if length cv \<ge> 10 then
           (let head_velocity = fst (estimate_head_velocity cv ts);
                vv = velocity_vector s @ [head_velocity];
                s1 = s\<lparr>coord_vel := tl cv, timestamp := tl ts, velocity_vector := vv\<rparr>;
                s2 = (if length vv \<ge> 30
                      then s1\<lparr>velocity_std := np_std vv, velocity_vector := tl vv\<rparr>
                      else s1)
            in if np_gt (velocity_std s2) threshold then (False, s2) else (True, s2))
         else (False, s\<lparr>coord_vel := cv, timestamp := ts\<rparr>))"

subsection \<open>Sessions: sequences of calls on one instance\<close>

datatype call =
    KalmanFilterCall vec
  | HeadMoveThresholdCall vec real
  | SetFiducialsCall "mat option list"

fun do_call :: "real \<Rightarrow> TrackerProcessing \<Rightarrow> call \<Rightarrow> TrackerProcessing" where
  "do_call thr s (KalmanFilterCall p) = snd (kalman_filter s p)"
| "do_call thr s (HeadMoveThresholdCall p now) = snd (compute_head_move_threshold thr s p now)"
| "do_call thr s (SetFiducialsCall fids) = SetMatrixTrackerFiducials s fids"

definition session :: "real \<Rightarrow> call list \<Rightarrow> TrackerProcessing" where
  "session thr calls = foldl (do_call thr) TrackerProcessing_init calls"

subsection \<open>Auxiliary notions for the properties of sessions\<close>

text \<open>Well-formed calls, the shape of one window update, the invariants of the windows
  and of the filter's error covariance.\<close>

definition call_ok :: "call \<Rightarrow> bool" where
  "call_ok c = (case c of KalmanFilterCall p \<Rightarrow> is_pose p
                | HeadMoveThresholdCall p now \<Rightarrow> is_pose p
                | SetFiducialsCall fids \<Rightarrow> length fids = 3)"

definition fifo_step :: "'a list \<Rightarrow> 'a list \<Rightarrow> bool" where
  "fifo_step old new =
     (new = old \<or> (new \<noteq> [] \<and> (new = old @ [last new] \<or> new = tl (old @ [last new]))))"

definition windows_inv :: "TrackerProcessing \<Rightarrow> bool" where
  "windows_inv s = (length (coord_vel s) \<le> 9 \<and> length (timestamp s) = length (coord_vel s) \<and>
      length (velocity_vector s) \<le> 29 \<and> length (kalman_coord_vector s) \<le> 19)"

fun is_observe :: "call \<Rightarrow> bool" where
  "is_observe (HeadMoveThresholdCall p now) = True"
| "is_observe c = False"

fun is_kalman :: "call \<Rightarrow> bool" where
  "is_kalman (KalmanFilterCall p) = True"
| "is_kalman c = False"

definition observed :: "call list \<Rightarrow> nat" where
  "observed calls = length (filter is_observe calls)"

definition kalman_ticks :: "call list \<Rightarrow> nat" where
  "kalman_ticks calls = length (filter is_kalman calls)"

definition coord_kalman_of :: "TrackerProcessing \<Rightarrow> vec \<Rightarrow> vec" where
  "coord_kalman_of s p =
     map (\<lambda>(v, ps_stb). fst (state (update_kalman ps_stb [v]))) (zip p (tracker_stabilizers s))"

definition gate_inv :: "nat \<Rightarrow> TrackerProcessing \<Rightarrow> bool" where
  "gate_inv n s = (length (coord_vel s) = min n 9 \<and> length (timestamp s) = min n 9 \<and>
     length (velocity_vector s) = n - 9 \<and> velocity_std s = Some 0)"

definition P_step :: "mat2 \<Rightarrow> mat2" where
  "P_step P = errorCovPost (correct (snd (predict
      ((filter_k (KalmanTracker_init 2 (1 / 1000) (1 / 10)))\<lparr>errorCovPost := P\<rparr>))) 0)"

definition gain1 :: "mat2 \<Rightarrow> real" where
  "gain1 P = fst (statePost (correct (snd (predict
      ((filter_k (KalmanTracker_init 2 (1 / 1000) (1 / 10)))\<lparr>errorCovPost := P\<rparr>))) 1))"

definition warm :: "mat2 \<Rightarrow> KalmanTracker \<Rightarrow> bool" where
  "warm P k = (transitionMatrix (filter_k k) = ((1, 1), (0, 1)) \<and>
     measurementMatrix (filter_k k) = (1, 1) \<and>
     processNoiseCov (filter_k k) = ((1 / 1000, 0), (0, 1 / 1000)) \<and>
     measurementNoiseCov (filter_k k) = 1 / 10 \<and>
     statePost (filter_k k) = (0, 0) \<and>
     errorCovPost (filter_k k) = P)"

definition all_warm :: "mat2 \<Rightarrow> TrackerProcessing \<Rightarrow> bool" where
  "all_warm P s = (length (tracker_stabilizers s) = 6 \<and> list_all (warm P) (tracker_stabilizers s))"

definition cov_ok :: "mat2 \<Rightarrow> bool" where
  "cov_ok P = (case P of ((a, b), (c, d)) \<Rightarrow>
     c = b \<and> 0 \<le> d \<and> 0 \<le> a + b \<and> 0 \<le> b + d \<and> 0 \<le> a * d - b * b)"

subsection \<open>\<^verbatim>\<open>compute_versors\<close> and \<^verbatim>\<open>compute_arc_motion\<close>\<close>

text \<open>numpy broadcasting of two one-dimensional arrays: equal lengths, or one of them of
  length 1, which is repeated; any other pair of shapes raises \<^verbatim>\<open>ValueError\<close>.\<close>

definition broadcast :: "vec \<Rightarrow> vec \<Rightarrow> (vec \<times> vec) option" where
  "broadcast xs ys =
     (if length xs = length ys then Some (xs, ys)
      else if length xs = 1 then Some (replicate (length ys) (hd xs), ys)
      else if length ys = 1 then Some (xs, replicate (length xs) (hd ys))
      else None)"

definition vnorm :: "vec \<Rightarrow> real" where
  "vnorm v = sqrt (sum_list (map (\<lambda>d. d\<^sup>2) v))"

text \<open>
  \<^verbatim>\<open>const.ROBOT_VERSOR_SCALE_FACTOR\<close> is the parameter \<open>scale\<close>.  The division by the norm
  is numpy's: a zero norm gives non-finite components and no exception.  The points are
  arrays of floats (positions in millimetres, angles in degrees).  The difference, the
  norm and the scaling are computed over the reals here: the rounding, the overflow and
  the underflow of double precision are not part of the model, so that an equation or a
  strict inequality between computed values holds of the code up to rounding only.
\<close>

definition compute_versors :: "real \<Rightarrow> vec \<Rightarrow> vec \<Rightarrow> error + npfloat list" where
  "compute_versors scale init_point final_point =
     (case broadcast final_point init_point of
        None \<Rightarrow> Inl ValueError
      | Some (f, i) \<Rightarrow>
          (let diff = vsub f i;
               norm = vnorm diff
           in Inr (map (\<lambda>d. map_option (\<lambda>v. v * scale) (np_div d norm)) diff)))"

definition np_add :: "real \<Rightarrow> npfloat \<Rightarrow> npfloat" where
  "np_add x v = map_option (\<lambda>w. x + w) v"

text \<open>
  The tuples are read by index: a head centre with fewer than 3 entries or a pose with
  fewer than 6 raises \<^verbatim>\<open>IndexError\<close>; a pose that does not broadcast against the
  six-component head centre raises \<^verbatim>\<open>ValueError\<close> inside \<^verbatim>\<open>compute_versors\<close>.
\<close>

definition compute_arc_motion ::
    "real \<Rightarrow> vec \<Rightarrow> vec \<Rightarrow> vec \<Rightarrow> error + (npfloat list \<times> npfloat list)" where
  "compute_arc_motion scale current_robot_coordinates head_center_coordinates new_robot_coordinates =
     (if length head_center_coordinates < 3 \<or> length new_robot_coordinates < 6 then Inl IndexError
      else
        (let c = current_robot_coordinates;
             n = new_robot_coordinates;
             head_center = [head_center_coordinates ! 0, head_center_coordinates ! 1,
                            head_center_coordinates ! 2, n ! 3, n ! 4, n ! 5]
         in (case compute_versors scale head_center c of
               Inl e \<Rightarrow> Inl e
             | Inr versor_factor_move_out \<Rightarrow>
                (if length c < 6 then Inl IndexError
                 else
                  (let init_move_out_point =
                         [np_add (c ! 0) (versor_factor_move_out ! 0),
                          np_add (c ! 1) (versor_factor_move_out ! 1),
                          np_add (c ! 2) (versor_factor_move_out ! 2),
                          Some (c ! 3), Some (c ! 4), Some (c ! 5)];
                       middle_point =
                         [(n ! 0 + c ! 0) / 2, (n ! 1 + c ! 1) / 2, (n ! 2 + c ! 2) / 2, 0, 0, 0]
                   in (case compute_versors scale head_center middle_point of
                         Inl e \<Rightarrow> Inl e
                       | Inr versor_middle \<Rightarrow>
                          (let versor_factor_middle_arc = map (map_option (\<lambda>v. v * 2)) versor_middle;
                               middle_arc_point =
                                 [np_add (middle_point ! 0) (versor_factor_middle_arc ! 0),
                                  np_add (middle_point ! 1) (versor_factor_middle_arc ! 1),
                                  np_add (middle_point ! 2) (versor_factor_middle_arc ! 2)]
                           in (case compute_versors scale head_center n of
                                 Inl e \<Rightarrow> Inl e
                               | Inr versor_factor_arc \<Rightarrow>
                                  (let final_ext_arc_point =
                                         [np_add (n ! 0) (versor_factor_arc ! 0),
                                          np_add (n ! 1) (versor_factor_arc ! 1),
                                          np_add (n ! 2) (versor_factor_arc ! 2),
                                          Some (n ! 3), Some (n ! 4), Some (n ! 5), Some 0];
                                       target_arc = middle_arc_point @ final_ext_arc_point
                                   in Inr (init_move_out_point, target_arc))))))))))"

text \<open>Reading the planner's result: the middle arc point is the first three entries of
  the target arc; the position midpoint of two poses; the distance of two positions.\<close>

definition all_finite :: "npfloat list \<Rightarrow> bool" where
  "all_finite xs = list_all (\<lambda>x. x \<noteq> None) xs"

definition middle_arc_point_of :: "error + (npfloat list \<times> npfloat list) \<Rightarrow> vec option" where
  "middle_arc_point_of r =
     (case r of
        Inl e \<Rightarrow> None
      | Inr (move_out, target_arc) \<Rightarrow>
          if all_finite (take 3 target_arc) then Some (map the (take 3 target_arc)) else None)"

definition midpoint :: "vec \<Rightarrow> vec \<Rightarrow> vec" where
  "midpoint c n = [(n ! 0 + c ! 0) / 2, (n ! 1 + c ! 1) / 2, (n ! 2 + c ! 2) / 2]"

definition dist3 :: "vec \<Rightarrow> vec \<Rightarrow> real" where
  "dist3 a b = vnorm (vsub (take 3 a) (take 3 b))"

text \<open>Auxiliary notions for the proofs about versors and arcs.\<close>

definition sumsq :: "vec \<Rightarrow> real" where
  "sumsq v = sum_list (map (\<lambda>d. d\<^sup>2) v)"

definition move_out_point_of :: "error + (npfloat list \<times> npfloat list) \<Rightarrow> vec option" where
  "move_out_point_of r =
     (case r of
        Inl e \<Rightarrow> None
      | Inr (move_out, target_arc) \<Rightarrow>
          if all_finite (take 3 move_out) then Some (map the (take 3 move_out)) else None)"


definition final_arc_point_of :: "error + (npfloat list \<times> npfloat list) \<Rightarrow> vec option" where
  "final_arc_point_of r =
     (case r of
        Inl e \<Rightarrow> None
      | Inr (move_out, target_arc) \<Rightarrow>
          if all_finite (take 3 (drop 3 target_arc))
          then Some (map the (take 3 (drop 3 target_arc))) else None)"

text \<open>The value of a versor as the claim on \<^verbatim>\<open>compute_versors\<close> words it: the difference of
  the two points, scaled by the scale factor over the Euclidean norm of all its
  components.  The two six-component points that the planner hands to
  \<^verbatim>\<open>compute_versors\<close>: the head centre with the new pose's orientation, and the position
  midpoint with the zero orientation.\<close>

definition versor_formula :: "real \<Rightarrow> vec \<Rightarrow> vec \<Rightarrow> vec" where
  "versor_formula scale init_point final_point =
     map (\<lambda>d. d * (scale / vnorm (vsub final_point init_point))) (vsub final_point init_point)"

definition head_center6 :: "vec \<Rightarrow> vec \<Rightarrow> vec" where
  "head_center6 hc n = take 3 hc @ drop 3 n"

definition middle_point6 :: "vec \<Rightarrow> vec \<Rightarrow> vec" where
  "middle_point6 c n = midpoint c n @ [0, 0, 0]"

definition vadd :: "vec \<Rightarrow> vec \<Rightarrow> vec" where
  "vadd xs ys = map2 (+) xs ys"

subsection \<open>Matrix product\<close>

definition is_mat4 :: "mat \<Rightarrow> bool" where
  "is_mat4 M = (length M = 4 \<and> list_all (\<lambda>row. length row = 4) M)"

definition matmul :: "mat \<Rightarrow> mat \<Rightarrow> mat" where
  "matmul A B =
     map (\<lambda>row. map (\<lambda>j. sum_list (map2 (*) row (map (\<lambda>r. r ! j) B))) [0..<length (hd B)]) A"

text \<open>
  The operator \<^verbatim>\<open>@\<close> of numpy.  An operand \<^verbatim>\<open>None\<close> is turned into a zero-dimensional
  object array, and \<^verbatim>\<open>matmul\<close> raises \<^verbatim>\<open>ValueError\<close> (not enough dimensions); so do
  two-dimensional operands whose inner dimensions differ.
\<close>

definition np_matmul :: "mat option \<Rightarrow> mat option \<Rightarrow> error + mat" where
  "np_matmul A B =
     (case A of
        None \<Rightarrow> Inl ValueError
      | Some a \<Rightarrow>
         (case B of
            None \<Rightarrow> Inl ValueError
          | Some b \<Rightarrow>
              if list_all (\<lambda>row. length row = length b) a \<and>
                 list_all (\<lambda>row. length row = length (hd b)) b
              then Inr (matmul a b) else Inl ValueError))"

subsection \<open>The functions of the module \<^verbatim>\<open>transformations\<close> that the code calls\<close>

text \<open>
  Modelled from the spec: the module \<^verbatim>\<open>transformations\<close> (imported as \<^verbatim>\<open>tr\<close>) is missing
  from the sources.  The spec names the two axis conventions in use, static XYZ
  (\<^verbatim>\<open>'sxyz'\<close>) and rotating ZYX (\<^verbatim>\<open>'rzyx'\<close>), says that the rotation matrix is built under
  the convention and composed with the translation matrix, that the angles are extracted
  from the rotation block under the same convention and the translation from the last
  column, and that at gimbal lock one angle is fixed to zero.  The definitions below are
  these functions as the public module of that name computes them, for the two
  conventions: both have first axis 0, parity 0 and no repeated axis, and differ in the
  frame flag, which swaps the first and the third angle.
\<close>

datatype axes = Sxyz | Rzyx

definition AXES2TUPLE :: "axes \<Rightarrow> nat \<times> nat \<times> nat \<times> nat" where
  "AXES2TUPLE ax = (case ax of Sxyz \<Rightarrow> (0, 0, 0, 0) | Rzyx \<Rightarrow> (0, 0, 0, 1))"

definition NEXT_AXIS :: "nat list" where
  "NEXT_AXIS = [1, 2, 0, 1]"

definition identity4 :: mat where
  "identity4 = [[1, 0, 0, 0], [0, 1, 0, 0], [0, 0, 1, 0], [0, 0, 0, 1]]"

definition set_entry :: "mat \<Rightarrow> nat \<Rightarrow> nat \<Rightarrow> real \<Rightarrow> mat" where
  "set_entry M r c v = M[r := (M ! r)[c := v]]"

text \<open>Modelled from the spec: \<^verbatim>\<open>tr.euler_matrix\<close>, the homogeneous rotation matrix of three
  Euler angles (radians) under an axis convention.\<close>

definition euler_matrix :: "real \<Rightarrow> real \<Rightarrow> real \<Rightarrow> axes \<Rightarrow> mat" where
  "euler_matrix ai0 aj0 ak0 ax =
     (case AXES2TUPLE ax of (firstaxis, parity, repetition, frame) \<Rightarrow>
       (let i = firstaxis;
            j = NEXT_AXIS ! (i + parity);
            k = NEXT_AXIS ! (i - parity + 1);
            ai1 = (if frame \<noteq> 0 then ak0 else ai0);
            ak1 = (if frame \<noteq> 0 then ai0 else ak0);
            ai = (if parity \<noteq> 0 then - ai1 else ai1);
            aj = (if parity \<noteq> 0 then - aj0 else aj0);
            ak = (if parity \<noteq> 0 then - ak1 else ak1);
            si = sin ai; sj = sin aj; sk = sin ak;
            ci = cos ai; cj = cos aj; ck = cos ak;
            cc = ci * ck; cs = ci * sk;
            sc = si * ck; ss = si * sk;
            M0 = identity4;
            M1 = set_entry M0 i i (cj * ck);
            M2 = set_entry M1 i j (sj * sc - cs);
            M3 = set_entry M2 i k (sj * cc + ss);
            M4 = set_entry M3 j i (cj * sk);
            M5 = set_entry M4 j j (sj * ss + cc);
            M6 = set_entry M5 j k (sj * cs - sc);
            M7 = set_entry M6 k i (- sj);
            M8 = set_entry M7 k j (cj * si);
            M9 = set_entry M8 k k (cj * ci)
        in M9))"

text \<open>\<^verbatim>\<open>math.atan2\<close> on finite floats, without the sign of zero.\<close>

definition atan2 :: "real \<Rightarrow> real \<Rightarrow> real" where
  "atan2 y x =
     (if 0 < x then arctan (y / x)
      else if x < 0 then (if 0 \<le> y then arctan (y / x) + pi else arctan (y / x) - pi)
      else if 0 < y then pi / 2
      else if y < 0 then - (pi / 2)
      else 0)"

text \<open>\<^verbatim>\<open>_EPS = numpy.finfo(float).eps * 4.0\<close>, with the machine epsilon \<open>2\<^sup>-\<^sup>5\<^sup>2\<close>.\<close>

definition EPS :: real where
  "EPS = 4 / 2 ^ 52"

text \<open>Modelled from the spec: \<^verbatim>\<open>tr.euler_from_matrix\<close>, the Euler angles (radians) of the
  rotation block of a matrix under an axis convention; at gimbal lock the third angle
  is fixed to zero.\<close>

definition euler_from_matrix :: "mat \<Rightarrow> axes \<Rightarrow> real \<times> real \<times> real" where
  "euler_from_matrix M ax =
     (case AXES2TUPLE ax of (firstaxis, parity, repetition, frame) \<Rightarrow>
       (let i = firstaxis;
            j = NEXT_AXIS ! (i + parity);
            k = NEXT_AXIS ! (i - parity + 1);
            cy = sqrt (M ! i ! i * M ! i ! i + M ! j ! i * M ! j ! i);
            ax1 = (if cy > EPS then atan2 (M ! k ! j) (M ! k ! k) else atan2 (- (M ! j ! k)) (M ! j ! j));
            ay1 = atan2 (- (M ! k ! i)) cy;
            az1 = (if cy > EPS then atan2 (M ! j ! i) (M ! i ! i) else 0);
            ax2 = (if parity \<noteq> 0 then - ax1 else ax1);
            ay2 = (if parity \<noteq> 0 then - ay1 else ay1);
            az2 = (if parity \<noteq> 0 then - az1 else az1)
        in if frame \<noteq> 0 then (az2, ay2, ax2) else (ax2, ay2, az2)))"

text \<open>Modelled from the spec: \<^verbatim>\<open>tr.translation_matrix\<close> writes the first three entries of
  the direction into the last column of the identity (one entry is broadcast, two or
  none raise \<^verbatim>\<open>ValueError\<close>); \<^verbatim>\<open>tr.translation_from_matrix\<close> reads that column;
  \<^verbatim>\<open>tr.concatenate_matrices\<close> is the matrix product.\<close>

definition translation_matrix :: "vec \<Rightarrow> error + mat" where
  "translation_matrix direction =
     (let d = take 3 direction in
      if length d = 3 then
        Inr (set_entry (set_entry (set_entry identity4 0 3 (d ! 0)) 1 3 (d ! 1)) 2 3 (d ! 2))
      else if length d = 1 then
        Inr (set_entry (set_entry (set_entry identity4 0 3 (d ! 0)) 1 3 (d ! 0)) 2 3 (d ! 0))
      else Inl ValueError)"

definition translation_from_matrix :: "mat \<Rightarrow> vec" where
  "translation_from_matrix M = [M ! 0 ! 3, M ! 1 ! 3, M ! 2 ! 3]"

definition concatenate_matrices :: "mat \<Rightarrow> mat \<Rightarrow> mat" where
  "concatenate_matrices A B = matmul A B"

definition radians :: "real \<Rightarrow> real" where
  "radians x = x * pi / 180"

definition degrees :: "real \<Rightarrow> real" where
  "degrees x = x * 180 / pi"

subsection \<open>The module's functions on poses and matrices\<close>

text \<open>\<^verbatim>\<open>a, b, g = np.radians(orientation)\<close> raises \<^verbatim>\<open>ValueError\<close> unless the orientation has
  exactly three entries.\<close>

definition coordinates_to_transformation_matrix :: "vec \<Rightarrow> vec \<Rightarrow> axes \<Rightarrow> error + mat" where
  "coordinates_to_transformation_matrix position orientation ax =
     (if length orientation \<noteq> 3 then Inl ValueError
      else
        (let a = radians (orientation ! 0);
             b = radians (orientation ! 1);
             g = radians (orientation ! 2);
             r_ref = euler_matrix a b g ax
         in (case translation_matrix position of
               Inl e \<Rightarrow> Inl e
             | Inr t_ref \<Rightarrow> Inr (concatenate_matrices t_ref r_ref))))"

definition transformation_matrix_to_coordinates :: "mat \<Rightarrow> axes \<Rightarrow> vec \<times> vec" where
  "transformation_matrix_to_coordinates matrix ax =
     (case euler_from_matrix matrix ax of (ax1, ay1, az1) \<Rightarrow>
        (translation_from_matrix matrix, [degrees ax1, degrees ay1, degrees az1]))"

text \<open>\<^verbatim>\<open>coord_raw[obj_ref_mode, :3]\<close> and \<^verbatim>\<open>coord_raw[obj_ref_mode, 3:]\<close>: a row index out of
  range raises \<^verbatim>\<open>IndexError\<close>.\<close>

definition compute_marker_transformation :: "vec list \<Rightarrow> nat \<Rightarrow> error + mat" where
  "compute_marker_transformation coord_raw obj_ref_mode =
     (if obj_ref_mode < length coord_raw then
        coordinates_to_transformation_matrix
          (take 3 (coord_raw ! obj_ref_mode)) (drop 3 (coord_raw ! obj_ref_mode)) Rzyx
      else Inl IndexError)"

text \<open>The function returns a list in every case in which it returns; the result type
  \<open>vec option\<close> is there for the caller's test \<^verbatim>\<open>is None\<close>.\<close>

definition transformation_tracker_to_robot :: "mat option \<Rightarrow> vec \<Rightarrow> error + vec option" where
  "transformation_tracker_to_robot m tracker_coord =
     (case coordinates_to_transformation_matrix
             (take 3 tracker_coord) (take 3 (drop 3 tracker_coord)) Rzyx of
        Inl e \<Rightarrow> Inl e
      | Inr M_tracker \<Rightarrow>
         (case np_matmul m (Some M_tracker) of
            Inl e \<Rightarrow> Inl e
          | Inr M_tracker_in_robot \<Rightarrow>
             (case transformation_matrix_to_coordinates M_tracker_in_robot Rzyx of
                (translation, angles_as_deg) \<Rightarrow> Inr (Some (translation @ angles_as_deg)))))"

definition transform_tracker_to_robot :: "mat option \<Rightarrow> vec list \<Rightarrow> error + vec list" where
  "transform_tracker_to_robot m coord_tracker =
     (if length coord_tracker < 1 then Inl IndexError
      else
       (case transformation_tracker_to_robot m (coord_tracker ! 0) of
          Inl e \<Rightarrow> Inl e
        | Inr probe_tracker_in_robot \<Rightarrow>
           (if length coord_tracker < 2 then Inl IndexError
            else
             (case transformation_tracker_to_robot m (coord_tracker ! 1) of
                Inl e \<Rightarrow> Inl e
              | Inr ref_tracker_in_robot \<Rightarrow>
                 (if length coord_tracker < 3 then Inl IndexError
                  else
                   (case transformation_tracker_to_robot m (coord_tracker ! 2) of
                      Inl e \<Rightarrow> Inl e
                    | Inr obj_tracker_in_robot \<Rightarrow>
                       (case probe_tracker_in_robot of
                          None \<Rightarrow> Inr [coord_tracker ! 0, coord_tracker ! 1, coord_tracker ! 2]
                        | Some probe \<Rightarrow>
                           (case ref_tracker_in_robot of
                              None \<Rightarrow> Inl ValueError
                            | Some ref \<Rightarrow>
                               (case obj_tracker_in_robot of
                                  None \<Rightarrow> Inl ValueError
                                | Some obj \<Rightarrow> Inr [probe, ref, obj])))))))))"

text \<open>\<^verbatim>\<open>compute_head_move_compensation\<close>: the head's matrix under rotating ZYX, times the
  stored offset, decoded under static XYZ.\<close>

definition compute_head_move_compensation :: "vec \<Rightarrow> mat option \<Rightarrow> error + vec" where
  "compute_head_move_compensation current_head m_change_robot_to_head =
     (case coordinates_to_transformation_matrix
             (take 3 current_head) (take 3 (drop 3 current_head)) Rzyx of
        Inl e \<Rightarrow> Inl e
      | Inr M_current_head \<Rightarrow>
         (case np_matmul (Some M_current_head) m_change_robot_to_head of
            Inl e \<Rightarrow> Inl e
          | Inr m_robot_new \<Rightarrow>
             (case transformation_matrix_to_coordinates m_robot_new Sxyz of
                (translation, angles_as_deg) \<Rightarrow> Inr (translation @ angles_as_deg))))"

text \<open>\<^verbatim>\<open>estimate_head_center\<close>: unpacking the fiducials raises \<^verbatim>\<open>ValueError\<close> unless there
  are exactly three of them; \<^verbatim>\<open>m[:3, -1]\<close> is the last column of the first three rows.\<close>

definition estimate_head_center :: "TrackerProcessing \<Rightarrow> vec \<Rightarrow> error + vec" where
  "estimate_head_center s current_head =
     (if length (matrix_tracker_fiducials s) \<noteq> 3 then Inl ValueError
      else
       (let m_probe_head_left = matrix_tracker_fiducials s ! 0;
            m_probe_head_right = matrix_tracker_fiducials s ! 1
        in (case compute_marker_transformation [current_head] 0 of
              Inl e \<Rightarrow> Inl e
            | Inr m_current_head \<Rightarrow>
               (case np_matmul (Some m_current_head) m_probe_head_left of
                  Inl e \<Rightarrow> Inl e
                | Inr m_ear_left_new \<Rightarrow>
                   (case np_matmul (Some m_current_head) m_probe_head_right of
                      Inl e \<Rightarrow> Inl e
                    | Inr m_ear_right_new \<Rightarrow>
                       Inr (map (\<lambda>(l, r). (l + r) / 2)
                              (zip (map last (take 3 m_ear_left_new))
                                   (map last (take 3 m_ear_right_new)))))))))"

text \<open>The frame conversion of one pose with the decoding convention as a parameter: the
  spec's sentence on the frame converter is the instance \<open>Sxyz\<close>.\<close>

definition frame_conversion :: "axes \<Rightarrow> mat \<Rightarrow> vec \<Rightarrow> vec" where
  "frame_conversion out_axes M pose =
     (let M_marker = matmul
            [[1, 0, 0, pose ! 0], [0, 1, 0, pose ! 1], [0, 0, 1, pose ! 2], [0, 0, 0, 1]]
            (euler_matrix (radians (pose ! 3)) (radians (pose ! 4)) (radians (pose ! 5)) Rzyx);
          M_robot = matmul M M_marker
      in case transformation_matrix_to_coordinates M_robot out_axes of
           (translation, angles_as_deg) \<Rightarrow> translation @ angles_as_deg)"

subsection \<open>Encoding a pose and decoding it again\<close>

definition round_trip :: "axes \<Rightarrow> vec \<Rightarrow> vec \<Rightarrow> error + (vec \<times> vec)" where
  "round_trip ax position orientation =
     (case coordinates_to_transformation_matrix position orientation ax of
        Inl e \<Rightarrow> Inl e
      | Inr M \<Rightarrow> Inr (transformation_matrix_to_coordinates M ax))"

definition close_to :: "real \<Rightarrow> vec \<Rightarrow> vec \<Rightarrow> bool" where
  "close_to tol xs ys =
     (length xs = length ys \<and> list_all (\<lambda>(x, y). \<bar>x - y\<bar> \<le> tol) (zip xs ys))"

section \<open>Properties\<close>

subsection \<open>Sliding windows, motion gate and filter warm-up\<close>

lemma windows_inv_init: "windows_inv TrackerProcessing_init"
  by (simp add: windows_inv_def TrackerProcessing_init_def)

lemma windows_inv_kalman: "windows_inv s \<Longrightarrow> windows_inv (snd (kalman_filter s p))"
  by (simp add: windows_inv_def kalman_filter_def Let_def)

lemma windows_inv_threshold:
  "windows_inv s \<Longrightarrow> windows_inv (snd (compute_head_move_threshold thr s p now))"
  by (simp add: windows_inv_def compute_head_move_threshold_def Let_def)

lemma windows_inv_do_call: "windows_inv s \<Longrightarrow> windows_inv (do_call thr s c)"
  by (cases c) (simp_all add: windows_inv_kalman windows_inv_threshold,
      simp add: windows_inv_def SetMatrixTrackerFiducials_def)

lemma windows_inv_foldl: "windows_inv s \<Longrightarrow> windows_inv (foldl (do_call thr) s calls)"
  by (induction calls arbitrary: s) (simp_all add: windows_inv_do_call)

lemma windows_inv_session: "windows_inv (session thr calls)"
  unfolding session_def by (rule windows_inv_foldl [OF windows_inv_init])

lemma fifo_append: "fifo_step old (old @ [x])"
  by (simp add: fifo_step_def)

lemma fifo_evict: "old \<noteq> [] \<Longrightarrow> fifo_step old (tl old @ [x])"
  by (cases old) (simp_all add: fifo_step_def)

lemma fifo_single: "fifo_step [] [x]"
  by (simp add: fifo_step_def)

lemma fifo_same: "fifo_step old old"
  by (simp add: fifo_step_def)

lemma fifo_kalman:
  "fifo_step (kalman_coord_vector s) (kalman_coord_vector (snd (kalman_filter s p)))"
  by (cases "kalman_coord_vector s = []")
     (simp_all add: kalman_filter_def Let_def fifo_append fifo_evict fifo_single)

lemma fifo_kalman_others:
  "coord_vel (snd (kalman_filter s p)) = coord_vel s \<and>
   timestamp (snd (kalman_filter s p)) = timestamp s \<and>
   velocity_vector (snd (kalman_filter s p)) = velocity_vector s \<and>
   velocity_std (snd (kalman_filter s p)) = velocity_std s"
  by (simp add: kalman_filter_def Let_def)

lemma fifo_threshold:
  "fifo_step (coord_vel s) (coord_vel (snd (compute_head_move_threshold thr s p now))) \<and>
   fifo_step (timestamp s) (timestamp (snd (compute_head_move_threshold thr s p now))) \<and>
   fifo_step (velocity_vector s) (velocity_vector (snd (compute_head_move_threshold thr s p now)))"
  apply (cases "coord_vel s = []"; cases "timestamp s = []"; cases "velocity_vector s = []")
  apply (simp_all add: compute_head_move_threshold_def Let_def fifo_append fifo_evict fifo_same fifo_single)
  done

lemma session_snoc: "session thr (calls @ [c]) = do_call thr (session thr calls) c"
  by (simp add: session_def)

lemma gate_inv_step:
  "gate_inv n s \<Longrightarrow> n < 38 \<Longrightarrow>
   gate_inv (Suc n) (snd (compute_head_move_threshold thr s p now))"
  by (auto simp add: gate_inv_def compute_head_move_threshold_def Let_def min_def)

lemma gate_inv_kalman: "gate_inv n s \<Longrightarrow> gate_inv n (snd (kalman_filter s p))"
  using fifo_kalman_others [of s p] by (simp add: gate_inv_def)

lemma gate_inv_session:
  "observed calls \<le> 38 \<Longrightarrow> gate_inv (observed calls) (session thr calls)"
proof (induction calls rule: rev_induct)
  case Nil
  show ?case
    by (simp add: observed_def session_def gate_inv_def TrackerProcessing_init_def)
next
  case (snoc c calls)
  show ?case
  proof (cases c)
    case (KalmanFilterCall p)
    with snoc show ?thesis
      by (simp add: observed_def session_snoc gate_inv_kalman)
  next
    case (HeadMoveThresholdCall p now)
    with snoc have "observed calls < 38" and "gate_inv (observed calls) (session thr calls)"
      by (simp_all add: observed_def)
    from gate_inv_step [OF this(2) this(1)] HeadMoveThresholdCall show ?thesis
      by (simp add: observed_def session_snoc)
  next
    case (SetFiducialsCall fids)
    with snoc show ?thesis
      by (simp add: observed_def session_snoc gate_inv_def SetMatrixTrackerFiducials_def)
  qed
qed

lemma gate_output:
  "gate_inv n s \<Longrightarrow> n < 38 \<Longrightarrow>
   fst (compute_head_move_threshold thr s p now) = (9 \<le> n \<and> 0 \<le> thr)"
  by (auto simp add: gate_inv_def compute_head_move_threshold_def Let_def min_def np_gt_def)

lemma gate_output_session:
  "observed calls < 38 \<Longrightarrow>
   fst (compute_head_move_threshold thr (session thr calls) p now) = (9 \<le> observed calls \<and> 0 \<le> thr)"
  using gate_inv_session [of calls thr] gate_output [of "observed calls" "session thr calls" thr p now]
  by simp

lemma kalman_len_step:
  "length (kalman_coord_vector s) = min n 19 \<Longrightarrow>
   length (kalman_coord_vector (snd (kalman_filter s p))) = min (Suc n) 19"
  by (auto simp add: kalman_filter_def Let_def min_def)

lemma kalman_len_session:
  "length (kalman_coord_vector (session thr calls)) = min (kalman_ticks calls) 19"
proof (induction calls rule: rev_induct)
  case Nil
  show ?case
    by (simp add: kalman_ticks_def session_def TrackerProcessing_init_def)
next
  case (snoc c calls)
  show ?case
  proof (cases c)
    case (KalmanFilterCall p)
    with kalman_len_step [OF snoc, of p] show ?thesis
      by (simp add: kalman_ticks_def session_snoc)
  next
    case (HeadMoveThresholdCall p now)
    have "kalman_coord_vector (snd (compute_head_move_threshold thr s p now)) = kalman_coord_vector s" for s
      by (simp add: compute_head_move_threshold_def Let_def)
    with snoc HeadMoveThresholdCall show ?thesis
      by (simp add: kalman_ticks_def session_snoc)
  next
    case (SetFiducialsCall fids)
    with snoc show ?thesis
      by (simp add: kalman_ticks_def session_snoc SetMatrixTrackerFiducials_def)
  qed
qed

lemma kalman_output:
  "length (kalman_coord_vector s) = min n 19 \<Longrightarrow>
   fst (kalman_filter s p) = (if n < 19 then p else coord_kalman_of s p)"
  by (auto simp add: kalman_filter_def Let_def min_def coord_kalman_of_def)

lemma kalman_output_session:
  "fst (kalman_filter (session thr calls) p) =
     (if kalman_ticks calls < 19 then p else coord_kalman_of (session thr calls) p)"
  using kalman_len_session [of thr calls] by (rule kalman_output)

lemma length_6E:
  "length xs = 6 \<Longrightarrow> \<exists>a b c d e f. xs = [a, b, c, d, e, f]"
  by (simp add: eval_nat_numeral length_Suc_conv) blast

lemmas kalman_defs = update_kalman_def predict_def correct_def
  KalmanTracker_init_def cv2_KalmanFilter_def mm2_def mv2_def add2_def transpose2_def scale2_def

lemma warm_init: "warm ((0, 0), (0, 0)) (KalmanTracker_init 2 (1 / 1000) (1 / 10))"
  by (simp add: warm_def kalman_defs)

lemma warm_step: "warm P k \<Longrightarrow> warm (P_step P) (update_kalman k [0])"
  by (cases P) (auto simp add: warm_def P_step_def kalman_defs Let_def split: prod.splits)

lemma warm_gain: "warm P k \<Longrightarrow> fst (state (update_kalman k [1])) = gain1 P"
  by (cases P) (auto simp add: warm_def gain1_def kalman_defs Let_def split: prod.splits)

lemma warm_zero: "warm P k \<Longrightarrow> fst (state (update_kalman k [0])) = 0"
  by (cases P) (auto simp add: warm_def kalman_defs Let_def split: prod.splits)

lemma all_warm_init: "all_warm ((0, 0), (0, 0)) TrackerProcessing_init"
  by (simp add: all_warm_def TrackerProcessing_init_def warm_init list_all_iff)

lemma all_warm_step:
  assumes "all_warm P s"
  shows "all_warm (P_step P) (snd (kalman_filter s [0, 0, 0, 0, 0, 0]))"
proof -
  from assms obtain a b c d e f where st: "tracker_stabilizers s = [a, b, c, d, e, f]"
    using length_6E [of "tracker_stabilizers s"] by (auto simp add: all_warm_def)
  with assms show ?thesis
    by (simp add: all_warm_def kalman_filter_def Let_def warm_step)
qed

lemma all_warm_zero_session:
  "all_warm ((P_step ^^ n) ((0, 0), (0, 0)))
     (session thr (replicate n (KalmanFilterCall [0, 0, 0, 0, 0, 0])))"
proof (induction n)
  case 0
  show ?case by (simp add: session_def all_warm_init)
next
  case (Suc n)
  have "replicate (Suc n) (KalmanFilterCall [0, 0, 0, 0, 0, 0]) =
        replicate n (KalmanFilterCall [0, 0, 0, 0, 0, 0]) @ [KalmanFilterCall [0, 0, 0, 0, 0, 0]]"
    by (simp add: replicate_append_same)
  with all_warm_step [OF Suc] show ?case
    by (simp add: session_snoc del: replicate_Suc)
qed

lemma all_warm_output:
  assumes "all_warm P s"
  shows "coord_kalman_of s [1, 0, 0, 0, 0, 0] = [gain1 P, 0, 0, 0, 0, 0]"
proof -
  from assms obtain a b c d e f where st: "tracker_stabilizers s = [a, b, c, d, e, f]"
    using length_6E [of "tracker_stabilizers s"] by (auto simp add: all_warm_def)
  with assms show ?thesis
    by (simp add: all_warm_def coord_kalman_of_def warm_gain [of P] warm_zero [of P])
qed

lemma P_step_eq: "P_step ((a, b), (c, d)) =
   (let a' = a + c + (b + d) + 1 / 1000; b' = b + d; c' = c + d; d' = d + 1 / 1000;
        t1 = a' + c'; t2 = b' + d'; t3 = t1 + t2 + 1 / 10
    in ((a' - t1 / t3 * t1, b' - t1 / t3 * t2), (c' - t2 / t3 * t1, d' - t2 / t3 * t2)))"
  by (simp add: P_step_def kalman_defs Let_def)

lemma gain1_eq: "gain1 ((a, b), (c, d)) =
   (let a' = a + c + (b + d) + 1 / 1000; b' = b + d; c' = c + d; d' = d + 1 / 1000;
        t1 = a' + c'; t2 = b' + d'; t3 = t1 + t2 + 1 / 10
    in t1 / t3)"
  by (simp add: gain1_def kalman_defs Let_def)

lemma cov_ok_step:
  assumes "cov_ok P"
  shows "cov_ok (P_step P)"
proof -
  obtain a b c d where P: "P = ((a, b), (c, d))"
    by (metis surj_pair)
  from assms P have cb: "c = b" and d0: "0 \<le> d" and ab: "0 \<le> a + b" and bd: "0 \<le> b + d"
    and det: "0 \<le> a * d - b * b"
    by (simp_all add: cov_ok_def)
  define q :: real where "q = 1 / 1000"
  define r :: real where "r = 1 / 10"
  define a' where "a' = a + b + (b + d) + q"
  define b' where "b' = b + d"
  define d' where "d' = d + q"
  define t1 where "t1 = a' + b'"
  define t2 where "t2 = b' + d'"
  define t3 where "t3 = t1 + t2 + r"
  have q0: "0 < q" and r0: "0 < r" by (simp_all add: q_def r_def)
  have t1p: "0 < t1" using ab bd q0 by (simp add: t1_def a'_def b'_def)
  have t2p: "0 < t2" using d0 bd q0 by (simp add: t2_def d'_def b'_def)
  have t3p: "0 < t3" using t1p t2p r0 by (simp add: t3_def)
  have d'0: "0 \<le> d'" using d0 q0 by (simp add: d'_def)
  have det': "0 \<le> a' * d' - b' * b'"
  proof -
    have "a' * d' - b' * b' = (a * d - b * b) + q * ((a + b) + (b + d) + d) + q * q"
      by (simp add: a'_def d'_def b'_def algebra_simps)
    moreover have "0 \<le> q * ((a + b) + (b + d) + d)"
      using q0 ab bd d0 by (intro mult_nonneg_nonneg) simp_all
    ultimately show ?thesis using det q0 by simp
  qed
  have step: "P_step P = ((a' - t1 / t3 * t1, b' - t1 / t3 * t2), (b' - t2 / t3 * t1, d' - t2 / t3 * t2))"
    by (simp add: P cb P_step_eq Let_def t1_def t2_def t3_def a'_def b'_def d'_def q_def r_def)
  have a'_eq: "a' = t1 - b'" by (simp add: t1_def)
  have d'_eq: "d' = t2 - b'" by (simp add: t2_def)
  have r_eq: "r = t3 - t1 - t2" by (simp add: t3_def)
  have t3n: "t3 \<noteq> 0" using t3p by simp
  have sym: "b' - t2 / t3 * t1 = b' - t1 / t3 * t2" by simp
  have e1: "(a' - t1 / t3 * t1) + (b' - t1 / t3 * t2) = t1 * r / t3"
    unfolding a'_eq r_eq using t3n by (simp add: field_simps)
  have e2: "(b' - t1 / t3 * t2) + (d' - t2 / t3 * t2) = t2 * r / t3"
    unfolding d'_eq r_eq using t3n by (simp add: field_simps)
  have e3: "d' - t2 / t3 * t2 = ((a' * d' - b' * b') + r * d') / t3"
  proof -
    have "d' * t3 - t2 * t2 = (a' * d' - b' * b') + r * d'"
      by (simp add: t3_def t2_def t1_def algebra_simps)
    moreover have "d' - t2 / t3 * t2 = (d' * t3 - t2 * t2) / t3"
      using t3n by (simp add: field_simps)
    ultimately show ?thesis by simp
  qed
  have e4: "(a' - t1 / t3 * t1) * (d' - t2 / t3 * t2) - (b' - t1 / t3 * t2) * (b' - t1 / t3 * t2)
      = (a' * d' - b' * b') * r / t3"
  proof -
    have x1: "a' - t1 / t3 * t1 = (t3 * a' - t1 * t1) / t3"
      using t3n by (simp add: field_simps)
    have x2: "d' - t2 / t3 * t2 = (t3 * d' - t2 * t2) / t3"
      using t3n by (simp add: field_simps)
    have x3: "b' - t1 / t3 * t2 = (t3 * b' - t1 * t2) / t3"
      using t3n by (simp add: field_simps)
    have poly: "(t3 * a' - t1 * t1) * (t3 * d' - t2 * t2) - (t3 * b' - t1 * t2) * (t3 * b' - t1 * t2)
        = t3 * ((a' * d' - b' * b') * r)"
      by (simp add: t3_def t1_def t2_def algebra_simps)
    have "(a' - t1 / t3 * t1) * (d' - t2 / t3 * t2) - (b' - t1 / t3 * t2) * (b' - t1 / t3 * t2)
        = (t3 * a' - t1 * t1) / t3 * ((t3 * d' - t2 * t2) / t3)
          - (t3 * b' - t1 * t2) / t3 * ((t3 * b' - t1 * t2) / t3)"
      by (simp only: x1 x2 x3)
    also have "\<dots> = ((t3 * a' - t1 * t1) * (t3 * d' - t2 * t2) - (t3 * b' - t1 * t2) * (t3 * b' - t1 * t2)) / (t3 * t3)"
      by (simp only: times_divide_times_eq diff_divide_distrib [symmetric])
    also have "\<dots> = t3 * ((a' * d' - b' * b') * r) / (t3 * t3)"
      unfolding poly ..
    also have "\<dots> = (a' * d' - b' * b') * r / t3"
      using t3n by simp
    finally show ?thesis .
  qed
  have n1: "0 \<le> t1 * r / t3" using t1p r0 t3p by simp
  have n2: "0 \<le> t2 * r / t3" using t2p r0 t3p by simp
  have n3: "0 \<le> ((a' * d' - b' * b') + r * d') / t3"
    using det' d'0 r0 t3p by simp
  have n4: "0 \<le> (a' * d' - b' * b') * r / t3"
    using det' r0 t3p by simp
  show ?thesis
    unfolding step cov_ok_def using sym e1 e2 e3 e4 n1 n2 n3 n4 by simp
qed

lemma gain1_less_1:
  assumes "cov_ok P"
  shows "gain1 P < 1"
proof -
  obtain a b c d where P: "P = ((a, b), (c, d))"
    by (metis surj_pair)
  from assms P have cb: "c = b" and d0: "0 \<le> d" and ab: "0 \<le> a + b" and bd: "0 \<le> b + d"
    by (simp_all add: cov_ok_def)
  define t1 where "t1 = a + b + (b + d) + 1 / 1000 + (b + d)"
  define t2 where "t2 = b + d + (d + 1 / 1000)"
  have g: "gain1 P = t1 / (t1 + t2 + 1 / 10)"
    by (simp add: P cb gain1_eq Let_def t1_def t2_def)
  have "0 < t1" using ab bd by (simp add: t1_def)
  moreover have "0 < t2" using d0 bd by (simp add: t2_def)
  ultimately show ?thesis unfolding g by simp
qed

lemma cov_ok_funpow: "cov_ok ((P_step ^^ n) ((0, 0), (0, 0)))"
  by (induction n) (simp add: cov_ok_def, simp add: cov_ok_step)

subsection \<open>Claims about the sliding windows, the motion gate and the filter warm-up\<close>

text \<open>
  Claim C9.  After every sequence of calls on a \<^verbatim>\<open>TrackerProcessing\<close> instance (with
  six-component poses), the head-pose window and the timestamp window hold at most 10
  entries, the velocity window at most 30 and the Kalman warm-up window at most 20; and
  the next call leaves each window unchanged, appends one entry at its end, or appends
  one entry and drops the oldest one.
\<close>

theorem C9_windows_bounded:
  "list_all call_ok calls \<Longrightarrow> call_ok c \<Longrightarrow>
   (let s = session thr calls; s' = do_call thr s c in
      length (coord_vel s) \<le> 10 \<and> length (timestamp s) \<le> 10 \<and>
      length (velocity_vector s) \<le> 30 \<and> length (kalman_coord_vector s) \<le> 20 \<and>
      fifo_step (coord_vel s) (coord_vel s') \<and>
      fifo_step (timestamp s) (timestamp s') \<and>
      fifo_step (velocity_vector s) (velocity_vector s') \<and>
      fifo_step (kalman_coord_vector s) (kalman_coord_vector s'))"
proof -
  have inv: "windows_inv (session thr calls)"
    by (rule windows_inv_session)
  have step: "fifo_step (coord_vel s) (coord_vel (do_call thr s c)) \<and>
      fifo_step (timestamp s) (timestamp (do_call thr s c)) \<and>
      fifo_step (velocity_vector s) (velocity_vector (do_call thr s c)) \<and>
      fifo_step (kalman_coord_vector s) (kalman_coord_vector (do_call thr s c))" for s
  proof (cases c)
    case (KalmanFilterCall p)
    then show ?thesis
      using fifo_kalman [of s p] fifo_kalman_others [of s p] by (simp add: fifo_same)
  next
    case (HeadMoveThresholdCall p now)
    have "kalman_coord_vector (snd (compute_head_move_threshold thr s p now)) = kalman_coord_vector s"
      by (simp add: compute_head_move_threshold_def Let_def)
    with HeadMoveThresholdCall show ?thesis
      using fifo_threshold [of s thr p now] by (simp add: fifo_same)
  next
    case (SetFiducialsCall fids)
    then show ?thesis
      by (simp add: SetMatrixTrackerFiducials_def fifo_same)
  qed
  from inv step [of "session thr calls"] show ?thesis
    by (simp add: windows_inv_def Let_def)
qed

theorem C9_windows_bounded_witness:
  "list_all call_ok [KalmanFilterCall [1, 2, 3, 4, 5, 6], HeadMoveThresholdCall [1, 2, 3, 4, 5, 6] 0] \<and>
   call_ok (HeadMoveThresholdCall [1, 2, 3, 4, 5, 7] 1) \<and>
   (let s = session 10 [KalmanFilterCall [1, 2, 3, 4, 5, 6], HeadMoveThresholdCall [1, 2, 3, 4, 5, 6] 0];
        s' = do_call 10 s (HeadMoveThresholdCall [1, 2, 3, 4, 5, 7] 1) in
      length (coord_vel s) \<le> 10 \<and> length (timestamp s) \<le> 10 \<and>
      length (velocity_vector s) \<le> 30 \<and> length (kalman_coord_vector s) \<le> 20 \<and>
      fifo_step (coord_vel s) (coord_vel s') \<and>
      fifo_step (timestamp s) (timestamp s') \<and>
      fifo_step (velocity_vector s) (velocity_vector s') \<and>
      fifo_step (kalman_coord_vector s) (kalman_coord_vector s'))"
  using C9_windows_bounded [of "[KalmanFilterCall [1, 2, 3, 4, 5, 6], HeadMoveThresholdCall [1, 2, 3, 4, 5, 6] 0]"
      "HeadMoveThresholdCall [1, 2, 3, 4, 5, 7] 1" 10]
  by (simp add: call_ok_def is_pose_def)

text \<open>
  Claim C5, as the code has it.  While fewer than 30 velocity samples have been observed
  (the call at hand is at most the 38th call of the gate), the running standard
  deviation is still its initial value 0, and the gate answers \<open>False\<close> on the first 9
  calls and, from the 10th call on, \<open>True\<close> exactly when the velocity threshold is not
  negative.
\<close>

theorem C5_gate_before_std:
  "list_all call_ok calls \<Longrightarrow> is_pose p \<Longrightarrow> observed calls < 38 \<Longrightarrow>
   velocity_std (session thr calls) = Some 0 \<and>
   fst (compute_head_move_threshold thr (session thr calls) p now)
     = (9 \<le> observed calls \<and> 0 \<le> thr)"
  using gate_inv_session [of calls thr] gate_output_session [of calls thr p now]
  by (simp add: gate_inv_def)

theorem C5_gate_before_std_witness:
  "list_all call_ok [HeadMoveThresholdCall [1, 2, 3, 4, 5, 6] 0] \<and> is_pose [1, 2, 3, 4, 5, 7] \<and>
   observed [HeadMoveThresholdCall [1, 2, 3, 4, 5, 6] 0] < 38 \<and>
   velocity_std (session 10 [HeadMoveThresholdCall [1, 2, 3, 4, 5, 6] 0]) = Some 0 \<and>
   fst (compute_head_move_threshold 10 (session 10 [HeadMoveThresholdCall [1, 2, 3, 4, 5, 6] 0])
          [1, 2, 3, 4, 5, 7] 1)
     = (9 \<le> observed [HeadMoveThresholdCall [1, 2, 3, 4, 5, 6] 0] \<and> (0::real) \<le> 10)"
  using C5_gate_before_std [of "[HeadMoveThresholdCall [1, 2, 3, 4, 5, 6] 0]" "[1, 2, 3, 4, 5, 7]" 10 1]
  by (simp add: call_ok_def is_pose_def observed_def)

text \<open>
  The claim as stated fails: with the threshold 10, the 10th call of the gate returns
  \<open>True\<close>, when a single velocity sample has been observed.
\<close>

theorem C5_gate_counterexample:
  "fst (compute_head_move_threshold 10
         (session 10
            [HeadMoveThresholdCall [0, 0, 0, 0, 0, 0] 0, HeadMoveThresholdCall [0, 0, 0, 0, 0, 0] 1,
             HeadMoveThresholdCall [0, 0, 0, 0, 0, 0] 2, HeadMoveThresholdCall [0, 0, 0, 0, 0, 0] 3,
             HeadMoveThresholdCall [0, 0, 0, 0, 0, 0] 4, HeadMoveThresholdCall [0, 0, 0, 0, 0, 0] 5,
             HeadMoveThresholdCall [0, 0, 0, 0, 0, 0] 6, HeadMoveThresholdCall [0, 0, 0, 0, 0, 0] 7,
             HeadMoveThresholdCall [0, 0, 0, 0, 0, 0] 8])
         [0, 0, 0, 0, 0, 0] 9) = True"
  by (subst gate_output_session) (simp_all add: observed_def)

text \<open>
  Claim C4, as the code has it.  The raw pose is returned unchanged on each of the first
  19 calls of \<^verbatim>\<open>kalman_filter\<close>; from the 20th call on the filtered pose (the first
  state component of each of the six updated stabilizers) is returned.
\<close>

theorem C4_warm_up_19:
  "list_all call_ok calls \<Longrightarrow> is_pose p \<Longrightarrow>
   fst (kalman_filter (session thr calls) p)
     = (if kalman_ticks calls < 19 then p else coord_kalman_of (session thr calls) p)"
  by (rule kalman_output_session)

theorem C4_warm_up_19_witness:
  "list_all call_ok [KalmanFilterCall [1, 2, 3, 4, 5, 6]] \<and> is_pose [1, 2, 3, 4, 5, 7] \<and>
   fst (kalman_filter (session 10 [KalmanFilterCall [1, 2, 3, 4, 5, 6]]) [1, 2, 3, 4, 5, 7])
     = (if kalman_ticks [KalmanFilterCall [1, 2, 3, 4, 5, 6]] < 19 then [1, 2, 3, 4, 5, 7]
        else coord_kalman_of (session 10 [KalmanFilterCall [1, 2, 3, 4, 5, 6]]) [1, 2, 3, 4, 5, 7])"
  using C4_warm_up_19 [of "[KalmanFilterCall [1, 2, 3, 4, 5, 6]]" "[1, 2, 3, 4, 5, 7]" 10]
  by (simp add: call_ok_def is_pose_def)

text \<open>
  The claim as stated fails on the 20th call: after 19 calls with the zero pose, the call
  with the pose \<open>(1, 0, 0, 0, 0, 0)\<close> returns the filtered pose, whose first component is
  the Kalman gain of that tick and is less than 1.
\<close>

theorem C4_warm_up_counterexample:
  "fst (kalman_filter (session 10 (replicate 19 (KalmanFilterCall [0, 0, 0, 0, 0, 0])))
         [1, 0, 0, 0, 0, 0]) \<noteq> [1, 0, 0, 0, 0, 0]"
proof -
  let ?s = "session 10 (replicate 19 (KalmanFilterCall [0, 0, 0, 0, 0, 0]))"
  let ?P = "(P_step ^^ 19) ((0, 0), (0, 0))"
  have "kalman_ticks (replicate 19 (KalmanFilterCall [0, 0, 0, 0, 0, 0])) = 19"
    by (simp add: kalman_ticks_def)
  then have "fst (kalman_filter ?s [1, 0, 0, 0, 0, 0]) = coord_kalman_of ?s [1, 0, 0, 0, 0, 0]"
    by (simp add: kalman_output_session)
  also have "\<dots> = [gain1 ?P, 0, 0, 0, 0, 0]"
    by (rule all_warm_output [OF all_warm_zero_session])
  finally show ?thesis
    using gain1_less_1 [OF cov_ok_funpow [of 19]] by simp
qed

subsection \<open>Versors and the arc planner\<close>

lemma np_div_zero: "np_div 0 0 = None"
  by (simp add: np_div_def)

lemma vsub_self: "vsub p p = replicate (length p) 0"
  by (induction p) (simp_all add: vsub_def)

lemma vnorm_zeros: "vnorm (replicate n 0) = 0"
  by (induction n) (simp_all add: vnorm_def)

lemma compute_versors_degenerate:
  "compute_versors scale p p = Inr (replicate (length p) None)"
  by (simp add: compute_versors_def broadcast_def vsub_self vnorm_zeros Let_def np_div_zero
      map_replicate_const)

lemma sumsq_nonneg: "0 \<le> sum_list (map (\<lambda>d. d\<^sup>2) (v :: vec))"
  by (rule sum_list_nonneg) auto

lemma vnorm_nonneg: "0 \<le> vnorm v"
  by (simp add: vnorm_def sumsq_nonneg)

lemma vnorm_0_iff: "vnorm v = 0 \<longleftrightarrow> v = replicate (length v) 0"
proof -
  note nn = sumsq_nonneg
  have "sum_list (map (\<lambda>d. d\<^sup>2) v) = 0 \<longleftrightarrow> v = replicate (length v) 0"
  proof (induction v)
    case Nil
    show ?case by simp
  next
    case (Cons x v)
    have "x\<^sup>2 + sum_list (map (\<lambda>d. d\<^sup>2) v) = 0 \<longleftrightarrow> x = 0 \<and> sum_list (map (\<lambda>d. d\<^sup>2) v) = 0"
      using nn [of v] by (smt (verit) zero_le_power2 power2_eq_iff_nonneg zero_eq_power2)
    with Cons show ?case by simp
  qed
  then show ?thesis by (simp add: vnorm_def)
qed

lemma vsub_eq_zeros:
  "length a = length b \<Longrightarrow> vsub a b = replicate (length a) 0 \<longleftrightarrow> a = b"
  by (induction a b rule: list_induct2) (simp_all add: vsub_def)

lemma vnorm_vsub_pos:
  "length a = length b \<Longrightarrow> a \<noteq> b \<Longrightarrow> 0 < vnorm (vsub a b)"
proof -
  assume l: "length a = length b" and ne: "a \<noteq> b"
  have "length (vsub a b) = length a" using l by (simp add: vsub_def)
  with vsub_eq_zeros [OF l] ne have "vnorm (vsub a b) \<noteq> 0"
    by (simp add: vnorm_0_iff)
  moreover have "0 \<le> vnorm (vsub a b)"
    by (rule vnorm_nonneg)
  ultimately show ?thesis by simp
qed

lemma compute_versors_formula:
  assumes "length init = length final" and "final \<noteq> init"
  shows "compute_versors scale init final =
     Inr (map (\<lambda>d. Some (d * (scale / vnorm (vsub final init)))) (vsub final init))"
proof -
  have "vnorm (vsub final init) \<noteq> 0"
    using vnorm_vsub_pos [of final init] assms by simp
  then show ?thesis
    using assms by (simp add: compute_versors_def broadcast_def Let_def np_div_def)
qed

lemma vnorm_sumsq: "vnorm v = sqrt (sumsq v)"
  by (simp add: vnorm_def sumsq_def)

lemma sumsq_ge0: "0 \<le> sumsq v"
  unfolding sumsq_def by (rule sumsq_nonneg)

lemma sumsq_scale: "sumsq (map (\<lambda>d. d * k) v) = k\<^sup>2 * sumsq v"
  by (induction v) (simp_all add: sumsq_def algebra_simps)

lemma vnorm_scale: "vnorm (map (\<lambda>d. d * k) v) = \<bar>k\<bar> * vnorm v"
  by (simp add: vnorm_sumsq sumsq_scale real_sqrt_mult)

lemma sumsq_take_drop: "sumsq (take n v) + sumsq (drop n v) = sumsq v"
proof -
  have "sumsq v = sumsq (take n v @ drop n v)"
    by (simp only: append_take_drop_id)
  also have "\<dots> = sumsq (take n v) + sumsq (drop n v)"
    unfolding sumsq_def by (simp only: map_append sum_list_append)
  finally show ?thesis by simp
qed

lemma sumsq_0_iff: "sumsq v = 0 \<longleftrightarrow> v = replicate (length v) 0"
  using vnorm_0_iff [of v] by (simp add: vnorm_sumsq)

lemma vnorm_take_less:
  assumes "drop n v \<noteq> replicate (length (drop n v)) 0"
  shows "vnorm (take n v) < vnorm v"
proof -
  have "0 < sumsq (drop n v)"
    using assms sumsq_0_iff [of "drop n v"] sumsq_ge0 [of "drop n v"] by linarith
  then have "sumsq (take n v) < sumsq v"
    using sumsq_take_drop [of n v] by linarith
  then show ?thesis by (simp add: vnorm_sumsq)
qed

lemma take_vsub: "take n (vsub a b) = vsub (take n a) (take n b)"
  by (simp add: vsub_def take_map take_zip)

lemma drop_vsub: "drop n (vsub a b) = vsub (drop n a) (drop n b)"
  by (simp add: vsub_def drop_map drop_zip)

lemma versor_positional_bound:
  assumes len: "length init = length final" and pos: "0 < scale"
    and ori: "drop 3 final \<noteq> drop 3 init"
  shows "vnorm (take 3 (map (\<lambda>d. d * (scale / vnorm (vsub final init))) (vsub final init))) < scale"
proof -
  let ?diff = "vsub final init"
  have l: "length (drop 3 final) = length (drop 3 init)" using len by simp
  have ne: "vsub (drop 3 final) (drop 3 init) \<noteq> replicate (length (drop 3 final)) 0"
    using vsub_eq_zeros [OF l] ori by simp
  have len': "length (vsub (drop 3 final) (drop 3 init)) = length (drop 3 final)"
    using l by (simp add: vsub_def)
  have "drop 3 ?diff \<noteq> replicate (length (drop 3 ?diff)) 0"
    using ne len' by (simp only: drop_vsub) simp
  then have less: "vnorm (take 3 ?diff) < vnorm ?diff"
    by (rule vnorm_take_less)
  have npos: "0 < vnorm ?diff"
    using less vnorm_nonneg [of "take 3 ?diff"] by linarith
  have "vnorm (take 3 (map (\<lambda>d. d * (scale / vnorm ?diff)) ?diff))
      = \<bar>scale / vnorm ?diff\<bar> * vnorm (take 3 ?diff)"
    by (simp only: take_map vnorm_scale)
  also have "\<dots> = scale * (vnorm (take 3 ?diff) / vnorm ?diff)"
    using pos npos by (simp add: abs_of_pos)
  also have "\<dots> < scale * 1"
    using pos npos less by (intro mult_strict_left_mono) simp_all
  finally show ?thesis by simp
qed

lemma compute_versors_six:
  "compute_versors scale [h0, h1, h2, h3, h4, h5] [x0, x1, x2, x3, x4, x5] =
     Inr (map (\<lambda>d. map_option (\<lambda>v. v * scale)
                 (np_div d (vnorm [x0 - h0, x1 - h1, x2 - h2, x3 - h3, x4 - h4, x5 - h5])))
            [x0 - h0, x1 - h1, x2 - h2, x3 - h3, x4 - h4, x5 - h5])"
  by (simp add: compute_versors_def broadcast_def vsub_def Let_def)

lemma vnorm3_pos_imp_vnorm6_pos:
  assumes "[d0, d1, d2] \<noteq> [0, 0, 0]"
  shows "0 < vnorm [d0, d1, d2, d3, d4, d5]"
proof -
  have "0 < d0\<^sup>2 + d1\<^sup>2 + d2\<^sup>2"
    using assms by (smt (verit) zero_less_power2 zero_le_power2 list.inject)
  moreover have "0 \<le> d3\<^sup>2 + d4\<^sup>2 + d5\<^sup>2"
    by simp
  ultimately have "0 < d0\<^sup>2 + (d1\<^sup>2 + (d2\<^sup>2 + (d3\<^sup>2 + (d4\<^sup>2 + d5\<^sup>2))))"
    by linarith
  then show ?thesis by (simp add: vnorm_def)
qed


lemma arc_middle_value:
  fixes hc :: vec and n0 n1 n2 n3 n4 n5 c0 c1 c2 :: real
  defines "N \<equiv> vnorm [(n0 + c0) / 2 - hc ! 0, (n1 + c1) / 2 - hc ! 1, (n2 + c2) / 2 - hc ! 2,
                       0 - n3, 0 - n4, 0 - n5]"
  assumes hc: "3 \<le> length hc" and N0: "N \<noteq> 0"
  shows "middle_arc_point_of (compute_arc_motion scale [c0, c1, c2, c3, c4, c5] hc [n0, n1, n2, n3, n4, n5]) =
     Some [(n0 + c0) / 2 + ((n0 + c0) / 2 - hc ! 0) / N * scale * 2,
           (n1 + c1) / 2 + ((n1 + c1) / 2 - hc ! 1) / N * scale * 2,
           (n2 + c2) / 2 + ((n2 + c2) / 2 - hc ! 2) / N * scale * 2]"
  using hc N0 unfolding N_def
  by (simp add: compute_arc_motion_def compute_versors_six Let_def middle_arc_point_of_def
      all_finite_def np_add_def np_div_def)


lemma vnorm_take_le: "vnorm (take n v) \<le> vnorm v"
proof -
  have "sumsq (take n v) \<le> sumsq v"
    using sumsq_take_drop [of n v] sumsq_ge0 [of "drop n v"] by linarith
  then show ?thesis by (simp add: vnorm_sumsq)
qed

lemma versor_magnitude:
  assumes len: "length init = length final" and ne: "final \<noteq> init" and pos: "0 < scale"
  shows "vnorm (take 3 (versor_formula scale init final))
           = scale * (vnorm (take 3 (vsub final init)) / vnorm (vsub final init))"
    and "vnorm (take 3 (versor_formula scale init final)) \<le> scale"
proof -
  let ?diff = "vsub final init"
  have npos: "0 < vnorm ?diff"
    using len ne by (intro vnorm_vsub_pos) simp_all
  have "vnorm (take 3 (versor_formula scale init final))
      = \<bar>scale / vnorm ?diff\<bar> * vnorm (take 3 ?diff)"
    unfolding versor_formula_def by (simp only: take_map vnorm_scale)
  also have "\<dots> = scale * (vnorm (take 3 ?diff) / vnorm ?diff)"
    using pos npos by (simp add: abs_of_pos)
  finally show eq: "vnorm (take 3 (versor_formula scale init final))
           = scale * (vnorm (take 3 ?diff) / vnorm ?diff)" .
  have "vnorm (take 3 ?diff) / vnorm ?diff \<le> 1"
    using npos vnorm_take_le [of 3 ?diff] by simp
  then have "scale * (vnorm (take 3 ?diff) / vnorm ?diff) \<le> scale * 1"
    using pos by (intro mult_left_mono) simp_all
  with eq show "vnorm (take 3 (versor_formula scale init final)) \<le> scale" by simp
qed

lemma compute_versors_is_formula:
  assumes "length init = length final" and "final \<noteq> init"
  shows "compute_versors scale init final = Inr (map Some (versor_formula scale init final))"
  using compute_versors_formula [OF assms, of scale] by (simp add: versor_formula_def comp_def)

lemma hc_cases:
  assumes "3 \<le> length (hc :: vec)"
  obtains h0 h1 h2 hs where "hc = h0 # h1 # h2 # hs"
  using assms by (cases hc; cases "tl hc"; cases "tl (tl hc)") (auto simp add: eval_nat_numeral)

lemma versor_formula_six:
  "versor_formula scale [h0, h1, h2, h3, h4, h5] [x0, x1, x2, x3, x4, x5] =
     map (\<lambda>d. d * (scale / vnorm [x0 - h0, x1 - h1, x2 - h2, x3 - h3, x4 - h4, x5 - h5]))
       [x0 - h0, x1 - h1, x2 - h2, x3 - h3, x4 - h4, x5 - h5]"
  by (simp add: versor_formula_def vsub_def)

lemma vnorm6_nonzero:
  assumes "[x0, x1, x2, x3, x4, x5] \<noteq> [h0, h1, h2, h3, h4, h5 :: real]"
  shows "vnorm [x0 - h0, x1 - h1, x2 - h2, x3 - h3, x4 - h4, x5 - h5] \<noteq> 0"
proof -
  have "0 < vnorm (vsub [x0, x1, x2, x3, x4, x5] [h0, h1, h2, h3, h4, h5])"
    by (rule vnorm_vsub_pos) (use assms in simp_all)
  then show ?thesis by (simp add: vsub_def)
qed

lemma planner_move_out:
  assumes hc: "3 \<le> length hc"
    and ne: "[c0, c1, c2, c3, c4, c5] \<noteq> head_center6 hc [n0, n1, n2, n3, n4, n5]"
  shows "move_out_point_of
           (compute_arc_motion scale [c0, c1, c2, c3, c4, c5] hc [n0, n1, n2, n3, n4, n5])
         = Some (vadd (take 3 [c0, c1, c2, c3, c4, c5])
              (take 3 (versor_formula scale (head_center6 hc [n0, n1, n2, n3, n4, n5])
                         [c0, c1, c2, c3, c4, c5])))"
proof -
  from hc obtain h0 h1 h2 hs where hcl: "hc = h0 # h1 # h2 # hs" by (rule hc_cases)
  have H: "head_center6 hc [n0, n1, n2, n3, n4, n5] = [h0, h1, h2, n3, n4, n5]"
    by (simp add: head_center6_def hcl)
  have N: "vnorm [c0 - h0, c1 - h1, c2 - h2, c3 - n3, c4 - n4, c5 - n5] \<noteq> 0"
    by (rule vnorm6_nonzero) (use ne H in simp)
  show ?thesis
    unfolding H versor_formula_six using N
    by (simp add: compute_arc_motion_def hcl compute_versors_six Let_def move_out_point_of_def
        all_finite_def np_add_def np_div_def vadd_def split: sum.splits)
qed

lemma planner_middle:
  assumes hc: "3 \<le> length hc"
    and ne: "middle_point6 [c0, c1, c2, c3, c4, c5] [n0, n1, n2, n3, n4, n5]
               \<noteq> head_center6 hc [n0, n1, n2, n3, n4, n5]"
  shows "middle_arc_point_of
           (compute_arc_motion scale [c0, c1, c2, c3, c4, c5] hc [n0, n1, n2, n3, n4, n5])
         = Some (vadd (midpoint [c0, c1, c2, c3, c4, c5] [n0, n1, n2, n3, n4, n5])
              (map (\<lambda>v. v * 2)
                 (take 3 (versor_formula scale (head_center6 hc [n0, n1, n2, n3, n4, n5])
                            (middle_point6 [c0, c1, c2, c3, c4, c5] [n0, n1, n2, n3, n4, n5])))))"
proof -
  from hc obtain h0 h1 h2 hs where hcl: "hc = h0 # h1 # h2 # hs" by (rule hc_cases)
  have H: "head_center6 hc [n0, n1, n2, n3, n4, n5] = [h0, h1, h2, n3, n4, n5]"
    by (simp add: head_center6_def hcl)
  have M: "middle_point6 [c0, c1, c2, c3, c4, c5] [n0, n1, n2, n3, n4, n5]
      = [(n0 + c0) / 2, (n1 + c1) / 2, (n2 + c2) / 2, 0, 0, 0]"
    by (simp add: middle_point6_def midpoint_def)
  have N: "vnorm [(n0 + c0) / 2 - h0, (n1 + c1) / 2 - h1, (n2 + c2) / 2 - h2, 0 - n3, 0 - n4, 0 - n5] \<noteq> 0"
    by (rule vnorm6_nonzero) (use ne H M in simp)
  show ?thesis
    unfolding H M versor_formula_six using N
    by (simp add: compute_arc_motion_def hcl compute_versors_six Let_def middle_arc_point_of_def
        all_finite_def np_add_def np_div_def vadd_def midpoint_def split: sum.splits)
qed

lemma planner_final:
  assumes hc: "3 \<le> length hc"
    and ne: "[n0, n1, n2, n3, n4, n5] \<noteq> head_center6 hc [n0, n1, n2, n3, n4, n5]"
  shows "final_arc_point_of
           (compute_arc_motion scale [c0, c1, c2, c3, c4, c5] hc [n0, n1, n2, n3, n4, n5])
         = Some (vadd (take 3 [n0, n1, n2, n3, n4, n5])
              (take 3 (versor_formula scale (head_center6 hc [n0, n1, n2, n3, n4, n5])
                         [n0, n1, n2, n3, n4, n5])))"
proof -
  from hc obtain h0 h1 h2 hs where hcl: "hc = h0 # h1 # h2 # hs" by (rule hc_cases)
  have H: "head_center6 hc [n0, n1, n2, n3, n4, n5] = [h0, h1, h2, n3, n4, n5]"
    by (simp add: head_center6_def hcl)
  have N: "vnorm [n0 - h0, n1 - h1, n2 - h2, n3 - n3, n4 - n4, n5 - n5] \<noteq> 0"
    by (rule vnorm6_nonzero) (use ne H in simp)
  show ?thesis
    unfolding H versor_formula_six using N
    by (simp add: compute_arc_motion_def hcl compute_versors_six Let_def final_arc_point_of_def
        all_finite_def np_add_def np_div_def vadd_def split: sum.splits)
qed




lemma planner_offsets:
  assumes c: "is_pose c" and n: "is_pose n" and hc: "3 \<le> length hc"
  shows "c \<noteq> head_center6 hc n \<Longrightarrow>
           move_out_point_of (compute_arc_motion scale c hc n)
             = Some (vadd (take 3 c) (take 3 (versor_formula scale (head_center6 hc n) c)))"
    and "middle_point6 c n \<noteq> head_center6 hc n \<Longrightarrow>
           middle_arc_point_of (compute_arc_motion scale c hc n)
             = Some (vadd (midpoint c n)
                  (map (\<lambda>v. v * 2)
                     (take 3 (versor_formula scale (head_center6 hc n) (middle_point6 c n)))))"
    and "n \<noteq> head_center6 hc n \<Longrightarrow>
           final_arc_point_of (compute_arc_motion scale c hc n)
             = Some (vadd (take 3 n) (take 3 (versor_formula scale (head_center6 hc n) n)))"
proof -
  from c obtain c0 c1 c2 c3 c4 c5 where cl: "c = [c0, c1, c2, c3, c4, c5]"
    using length_6E [of c] by (auto simp add: is_pose_def)
  from n obtain n0 n1 n2 n3 n4 n5 where nl: "n = [n0, n1, n2, n3, n4, n5]"
    using length_6E [of n] by (auto simp add: is_pose_def)
  show "c \<noteq> head_center6 hc n \<Longrightarrow>
           move_out_point_of (compute_arc_motion scale c hc n)
             = Some (vadd (take 3 c) (take 3 (versor_formula scale (head_center6 hc n) c)))"
    unfolding cl nl by (rule planner_move_out [OF hc])
  show "middle_point6 c n \<noteq> head_center6 hc n \<Longrightarrow>
           middle_arc_point_of (compute_arc_motion scale c hc n)
             = Some (vadd (midpoint c n)
                  (map (\<lambda>v. v * 2)
                     (take 3 (versor_formula scale (head_center6 hc n) (middle_point6 c n)))))"
    unfolding cl nl by (rule planner_middle [OF hc])
  show "n \<noteq> head_center6 hc n \<Longrightarrow>
           final_arc_point_of (compute_arc_motion scale c hc n)
             = Some (vadd (take 3 n) (take 3 (versor_formula scale (head_center6 hc n) n)))"
    unfolding cl nl by (rule planner_final [OF hc])
qed

lemma sqrt_25: "sqrt 25 = 5"
  by (rule real_sqrt_unique) simp_all

lemma sqrt_12544: "sqrt 12544 = 112"
  by (rule real_sqrt_unique) simp_all

lemma middle_offset_exceeds_scale:
  "middle_arc_point_of (compute_arc_motion 70 [4, 0, 0, 0, 0, 0] [0, 0, 0] [4, 0, 0, 0, 0, 3])
     = Some [116, 0, 0] \<and>
   drop 3 (middle_point6 [4, 0, 0, 0, 0, 0] [4, 0, 0, 0, 0, 3])
     \<noteq> drop 3 (head_center6 [0, 0, 0] [4, 0, 0, 0, 0, 3]) \<and>
   dist3 [116, 0, 0] (midpoint [4, 0, 0, 0, 0, 0] [4, 0, 0, 0, 0, 3]) = 112 \<and>
   \<not> dist3 [116, 0, 0] (midpoint [4, 0, 0, 0, 0, 0] [4, 0, 0, 0, 0, 3]) < 70"
proof -
  have v: "vnorm [4, 0, 0, 0, 0, - 3] = 5"
    by (simp add: vnorm_def sqrt_25)
  have a: "middle_arc_point_of (compute_arc_motion 70 [4, 0, 0, 0, 0, 0] [0, 0, 0] [4, 0, 0, 0, 0, 3])
     = Some [116, 0, 0]"
    by (simp add: compute_arc_motion_def compute_versors_six Let_def middle_arc_point_of_def
        all_finite_def np_add_def np_div_def v)
  have d: "dist3 [116, 0, 0] (midpoint [4, 0, 0, 0, 0, 0] [4, 0, 0, 0, 0, 3]) = 112"
    by (simp add: dist3_def midpoint_def vsub_def vnorm_def sqrt_12544)
  have o: "drop 3 (middle_point6 [4, 0, 0, 0, 0, 0] [4, 0, 0, 0, 0, 3])
     \<noteq> drop 3 (head_center6 [0, 0, 0] [4, 0, 0, 0, 0, 3])"
    by (simp add: middle_point6_def midpoint_def head_center6_def)
  from a d o show ?thesis by simp
qed


subsection \<open>Claims about the versors and the arc planner\<close>

text \<open>
  Claim C6, as the code has it.  When the initial point equals the final point,
  \<^verbatim>\<open>compute_versors\<close> tests nothing: it divides the zero difference vector by the zero
  norm, raises no exception and returns a vector whose every component is not finite.
\<close>

theorem C6_versors_degenerate:
  "compute_versors scale p p = Inr (replicate (length p) None)"
  by (rule compute_versors_degenerate)

text \<open>
  The claim as stated fails: for a current pose equal to the head centre the call
  returns normally, with six \<^verbatim>\<open>nan\<close> components; no condition is signalled.
\<close>

theorem C6_versors_counterexample:
  "compute_versors 70 [10, 20, 30, 0, 0, 0] [10, 20, 30, 0, 0, 0]
     = Inr [None, None, None, None, None, None]"
  by (simp add: compute_versors_degenerate eval_nat_numeral)




text \<open>
  Claim C10, as the code has it, in exact real arithmetic.  For six-component points
  \<open>init \<noteq> final\<close> and a positive scale factor, \<^verbatim>\<open>compute_versors\<close> returns \<open>final - init\<close>
  scaled by the scale factor over the Euclidean norm of all six components of
  \<open>final - init\<close>.  Hence the positional part of the returned versor has the length
  "scale factor times the norm of the positional difference over the norm of the
  six-component difference", which is at most the scale factor.  In the arc planner,
  whose head centre carries the new pose's orientation, the move-out point and the final
  arc point are displaced by the positional part of such a versor, while the middle arc
  point is displaced by twice the positional part of its versor.
\<close>

theorem C10_versor_six_norm:
  "is_pose init \<Longrightarrow> is_pose final \<Longrightarrow> final \<noteq> init \<Longrightarrow> 0 < scale \<Longrightarrow>
   is_pose c \<Longrightarrow> is_pose n \<Longrightarrow> 3 \<le> length hc \<Longrightarrow>
   compute_versors scale init final = Inr (map Some (versor_formula scale init final)) \<and>
   vnorm (take 3 (versor_formula scale init final))
     = scale * (vnorm (take 3 (vsub final init)) / vnorm (vsub final init)) \<and>
   vnorm (take 3 (versor_formula scale init final)) \<le> scale \<and>
   (c \<noteq> head_center6 hc n \<longrightarrow>
      move_out_point_of (compute_arc_motion scale c hc n)
        = Some (vadd (take 3 c) (take 3 (versor_formula scale (head_center6 hc n) c)))) \<and>
   (middle_point6 c n \<noteq> head_center6 hc n \<longrightarrow>
      middle_arc_point_of (compute_arc_motion scale c hc n)
        = Some (vadd (midpoint c n)
             (map (\<lambda>v. v * 2)
                (take 3 (versor_formula scale (head_center6 hc n) (middle_point6 c n)))))) \<and>
   (n \<noteq> head_center6 hc n \<longrightarrow>
      final_arc_point_of (compute_arc_motion scale c hc n)
        = Some (vadd (take 3 n) (take 3 (versor_formula scale (head_center6 hc n) n))))"
proof -
  assume a: "is_pose init" "is_pose final" "final \<noteq> init" "0 < scale"
    and p: "is_pose c" "is_pose n" "3 \<le> length hc"
  from a have len: "length init = length final" by (simp add: is_pose_def)
  note compute_versors_is_formula [OF len a(3), of scale]
    versor_magnitude [OF len a(3) a(4)]
    planner_offsets [OF p, of scale]
  then show ?thesis by blast
qed

theorem C10_versor_six_norm_witness:
  "is_pose [0, 0, 0, 0, 0, 0] \<and> is_pose [3, 0, 0, 0, 0, 4] \<and>
   [3, 0, 0, 0, 0, 4] \<noteq> [0, 0, 0, 0, 0, 0 :: real] \<and> (0 :: real) < 70 \<and>
   is_pose [4, 0, 0, 0, 0, 0] \<and> is_pose [4, 0, 0, 0, 0, 3] \<and> 3 \<le> length [0, 0, 0 :: real] \<and>
   [4, 0, 0, 0, 0, 0] \<noteq> head_center6 [0, 0, 0] [4, 0, 0, 0, 0, 3] \<and>
   middle_point6 [4, 0, 0, 0, 0, 0] [4, 0, 0, 0, 0, 3] \<noteq> head_center6 [0, 0, 0] [4, 0, 0, 0, 0, 3] \<and>
   [4, 0, 0, 0, 0, 3] \<noteq> head_center6 [0, 0, 0] [4, 0, 0, 0, 0, 3] \<and>
   compute_versors 70 [0, 0, 0, 0, 0, 0] [3, 0, 0, 0, 0, 4]
     = Inr (map Some (versor_formula 70 [0, 0, 0, 0, 0, 0] [3, 0, 0, 0, 0, 4])) \<and>
   vnorm (take 3 (versor_formula 70 [0, 0, 0, 0, 0, 0] [3, 0, 0, 0, 0, 4]))
     = 70 * (vnorm (take 3 (vsub [3, 0, 0, 0, 0, 4] [0, 0, 0, 0, 0, 0]))
             / vnorm (vsub [3, 0, 0, 0, 0, 4] [0, 0, 0, 0, 0, 0])) \<and>
   vnorm (take 3 (versor_formula 70 [0, 0, 0, 0, 0, 0] [3, 0, 0, 0, 0, 4])) \<le> 70 \<and>
   move_out_point_of (compute_arc_motion 70 [4, 0, 0, 0, 0, 0] [0, 0, 0] [4, 0, 0, 0, 0, 3])
     = Some (vadd (take 3 [4, 0, 0, 0, 0, 0])
          (take 3 (versor_formula 70 (head_center6 [0, 0, 0] [4, 0, 0, 0, 0, 3]) [4, 0, 0, 0, 0, 0]))) \<and>
   middle_arc_point_of (compute_arc_motion 70 [4, 0, 0, 0, 0, 0] [0, 0, 0] [4, 0, 0, 0, 0, 3])
     = Some (vadd (midpoint [4, 0, 0, 0, 0, 0] [4, 0, 0, 0, 0, 3])
          (map (\<lambda>v. v * 2)
             (take 3 (versor_formula 70 (head_center6 [0, 0, 0] [4, 0, 0, 0, 0, 3])
                        (middle_point6 [4, 0, 0, 0, 0, 0] [4, 0, 0, 0, 0, 3]))))) \<and>
   final_arc_point_of (compute_arc_motion 70 [4, 0, 0, 0, 0, 0] [0, 0, 0] [4, 0, 0, 0, 0, 3])
     = Some (vadd (take 3 [4, 0, 0, 0, 0, 3])
          (take 3 (versor_formula 70 (head_center6 [0, 0, 0] [4, 0, 0, 0, 0, 3]) [4, 0, 0, 0, 0, 3])))"
proof -
  have h: "is_pose [0, 0, 0, 0, 0, 0]" "is_pose [3, 0, 0, 0, 0, 4]"
    "[3, 0, 0, 0, 0, 4] \<noteq> [0, 0, 0, 0, 0, 0 :: real]" "(0 :: real) < 70"
    "is_pose [4, 0, 0, 0, 0, 0]" "is_pose [4, 0, 0, 0, 0, 3]" "3 \<le> length [0, 0, 0 :: real]"
    by (simp_all add: is_pose_def)
  have g: "[4, 0, 0, 0, 0, 0] \<noteq> head_center6 [0, 0, 0] [4, 0, 0, 0, 0, 3]"
    "middle_point6 [4, 0, 0, 0, 0, 0] [4, 0, 0, 0, 0, 3] \<noteq> head_center6 [0, 0, 0] [4, 0, 0, 0, 0, 3]"
    "[4, 0, 0, 0, 0, 3] \<noteq> head_center6 [0, 0, 0] [4, 0, 0, 0, 0, 3]"
    by (simp_all add: head_center6_def middle_point6_def midpoint_def)
  from h g C10_versor_six_norm [OF h] show ?thesis by blast
qed

text \<open>
  The claim as stated fails for the middle arc point: with the scale factor 70, the
  current pose \<open>(4, 0, 0, 0, 0, 0)\<close>, the head centre at the origin and the new pose
  \<open>(4, 0, 0, 0, 0, 3)\<close>, the two points of the middle versor differ in orientation, and the
  middle arc point is displaced from the midpoint by 112, more than the scale factor.
\<close>

theorem C10_middle_offset_counterexample:
  "middle_arc_point_of (compute_arc_motion 70 [4, 0, 0, 0, 0, 0] [0, 0, 0] [4, 0, 0, 0, 0, 3])
     = Some [116, 0, 0] \<and>
   drop 3 (middle_point6 [4, 0, 0, 0, 0, 0] [4, 0, 0, 0, 0, 3])
     \<noteq> drop 3 (head_center6 [0, 0, 0] [4, 0, 0, 0, 0, 3]) \<and>
   dist3 [116, 0, 0] (midpoint [4, 0, 0, 0, 0, 0] [4, 0, 0, 0, 0, 3]) = 112 \<and>
   \<not> dist3 [116, 0, 0] (midpoint [4, 0, 0, 0, 0, 0] [4, 0, 0, 0, 0, 3]) < 70"
  by (rule middle_offset_exceeds_scale)

subsection \<open>Matrices, Euler angles and the frame conversion\<close>

lemma nth_simps_num: "(x # xs) ! 1 = xs ! 0" "(x # xs) ! 2 = xs ! 1" "(x # xs) ! 3 = xs ! 2"
  by (simp_all add: eval_nat_numeral)

lemma euler_matrix_Sxyz:
  "euler_matrix a b g Sxyz =
    [[cos b * cos g, sin b * (sin a * cos g) - cos a * sin g, sin b * (cos a * cos g) + sin a * sin g, 0],
     [cos b * sin g, sin b * (sin a * sin g) + cos a * cos g, sin b * (cos a * sin g) - sin a * cos g, 0],
     [- sin b, cos b * sin a, cos b * cos a, 0],
     [0, 0, 0, 1]]"
  by (simp add: euler_matrix_def AXES2TUPLE_def NEXT_AXIS_def identity4_def set_entry_def Let_def
      eval_nat_numeral)

lemma euler_matrix_Rzyx: "euler_matrix a b g Rzyx = euler_matrix g b a Sxyz"
  by (simp add: euler_matrix_def AXES2TUPLE_def Let_def)

lemma euler_from_matrix_Sxyz:
  "euler_from_matrix [[m00, m01, m02, m03], [m10, m11, m12, m13], [m20, m21, m22, m23], r3] Sxyz =
    (let cy = sqrt (m00 * m00 + m10 * m10) in
     (if cy > EPS then atan2 m21 m22 else atan2 (- m12) m11,
      atan2 (- m20) cy,
      if cy > EPS then atan2 m10 m00 else 0))"
  by (simp add: euler_from_matrix_def AXES2TUPLE_def NEXT_AXIS_def Let_def eval_nat_numeral)

lemma euler_from_matrix_Rzyx:
  "euler_from_matrix M Rzyx = (case euler_from_matrix M Sxyz of (x, y, z) \<Rightarrow> (z, y, x))"
  by (simp add: euler_from_matrix_def AXES2TUPLE_def Let_def)

lemma matmul_translation:
  "matmul [[1, 0, 0, x], [0, 1, 0, y], [0, 0, 1, z], [0, 0, 0, 1]]
          [[r00, r01, r02, 0], [r10, r11, r12, 0], [r20, r21, r22, 0], [0, 0, 0, 1]]
   = [[r00, r01, r02, x], [r10, r11, r12, y], [r20, r21, r22, z], [0, 0, 0, 1]]"
  by (simp add: matmul_def nth_simps_num)

lemma matmul_identity4:
  "matmul identity4 [[a0, a1, a2, a3], [b0, b1, b2, b3], [c0, c1, c2, c3], [d0, d1, d2, d3]]
   = [[a0, a1, a2, a3], [b0, b1, b2, b3], [c0, c1, c2, c3], [d0, d1, d2, d3]]"
  by (simp add: matmul_def identity4_def nth_simps_num)

lemma translation_matrix_3:
  "translation_matrix [x, y, z] = Inr [[1, 0, 0, x], [0, 1, 0, y], [0, 0, 1, z], [0, 0, 0, 1]]"
  by (simp add: translation_matrix_def identity4_def set_entry_def Let_def eval_nat_numeral)

lemma c2tm_Sxyz:
  "coordinates_to_transformation_matrix [x, y, z] [a, b, g] ax =
    Inr (matmul [[1, 0, 0, x], [0, 1, 0, y], [0, 0, 1, z], [0, 0, 0, 1]]
           (euler_matrix (radians a) (radians b) (radians g) ax))"
  by (simp add: coordinates_to_transformation_matrix_def translation_matrix_3
      concatenate_matrices_def Let_def nth_simps_num)

lemma translation_matrix_error: "translation_matrix d = Inl e \<Longrightarrow> e = ValueError"
  by (simp add: translation_matrix_def Let_def split: if_splits)

lemma c2tm_error: "coordinates_to_transformation_matrix p o' ax = Inl e \<Longrightarrow> e = ValueError"
  by (auto simp add: coordinates_to_transformation_matrix_def Let_def
      split: if_splits sum.splits dest: translation_matrix_error)

lemma np_matmul_None_left: "np_matmul None B = Inl ValueError"
  by (simp add: np_matmul_def)

lemma np_matmul_None_right: "np_matmul A None = Inl ValueError"
  by (simp add: np_matmul_def split: option.splits)

lemma ttr_unset: "transformation_tracker_to_robot None p = Inl ValueError"
  by (auto simp add: transformation_tracker_to_robot_def np_matmul_None_left
      split: sum.splits dest: c2tm_error)

lemma ttr_never_None: "transformation_tracker_to_robot m p \<noteq> Inr None"
  by (simp add: transformation_tracker_to_robot_def split: sum.splits prod.splits)

lemma transform_unset: "cs \<noteq> [] \<Longrightarrow> transform_tracker_to_robot None cs = Inl ValueError"
  by (cases cs) (simp_all add: transform_tracker_to_robot_def ttr_unset)

lemma estimate_head_center_unset:
  assumes "matrix_tracker_fiducials s = replicate 3 None"
  shows "estimate_head_center s ch = Inl ValueError"
proof (cases "compute_marker_transformation [ch] 0")
  case (Inl e)
  then have "e = ValueError"
    by (auto simp add: compute_marker_transformation_def dest: c2tm_error)
  with Inl assms show ?thesis
    by (simp add: estimate_head_center_def Let_def)
next
  case (Inr M)
  with assms show ?thesis
    by (simp add: estimate_head_center_def Let_def np_matmul_None_right eval_nat_numeral)
qed

lemma c2tm_pose:
  "coordinates_to_transformation_matrix (take 3 [x, y, z, a, b, g]) (take 3 (drop 3 [x, y, z, a, b, g])) ax
   = Inr (matmul [[1, 0, 0, x], [0, 1, 0, y], [0, 0, 1, z], [0, 0, 0, 1]]
           (euler_matrix (radians a) (radians b) (radians g) ax))"
  by (simp add: c2tm_Sxyz)

lemma is_mat4_E:
  assumes "is_mat4 M"
  obtains r0 r1 r2 r3 where "M = [r0, r1, r2, r3]" "length r0 = 4" "length r1 = 4" "length r2 = 4" "length r3 = 4"
proof -
  from assms have "length M = 4" by (simp add: is_mat4_def)
  then obtain r0 r1 r2 r3 where M: "M = [r0, r1, r2, r3]"
    by (auto simp add: eval_nat_numeral length_Suc_conv)
  with assms that show thesis by (simp add: is_mat4_def)
qed

lemma length_matmul_euler:
  "length (matmul T (euler_matrix a b g ax)) = length T"
  by (simp add: matmul_def)

lemma euler_matrix_shape:
  "length (euler_matrix a b g ax) = 4 \<and> list_all (\<lambda>row. length row = 4) (euler_matrix a b g ax)"
  by (cases ax) (simp_all add: euler_matrix_Rzyx euler_matrix_Sxyz)

lemma ttr_set:
  assumes "is_mat4 M" and "is_pose p"
  shows "transformation_tracker_to_robot (Some M) p = Inr (Some (frame_conversion Rzyx M p))"
proof -
  from assms(2) obtain x y z a b g where p: "p = [x, y, z, a, b, g]"
    using length_6E [of p] by (auto simp add: is_pose_def)
  let ?Mt = "matmul [[1, 0, 0, x], [0, 1, 0, y], [0, 0, 1, z], [0, 0, 0, 1]]
           (euler_matrix (radians a) (radians b) (radians g) Rzyx)"
  have sh: "length ?Mt = 4 \<and> list_all (\<lambda>row. length row = 4) ?Mt"
    by (simp add: euler_matrix_Rzyx euler_matrix_Sxyz matmul_translation)
  have mm: "np_matmul (Some M) (Some ?Mt) = Inr (matmul M ?Mt)"
  proof -
    have "length (hd ?Mt) = 4"
      by (simp add: euler_matrix_Rzyx euler_matrix_Sxyz matmul_translation)
    with sh assms(1) show ?thesis
      by (simp add: np_matmul_def is_mat4_def)
  qed
  show ?thesis
    unfolding p transformation_tracker_to_robot_def c2tm_pose
    by (simp add: mm frame_conversion_def nth_simps_num split: prod.splits)
qed

lemma transform_set:
  assumes "is_mat4 M" and "is_pose p0" and "is_pose p1" and "is_pose p2"
  shows "transform_tracker_to_robot (Some M) [p0, p1, p2] =
     Inr [frame_conversion Rzyx M p0, frame_conversion Rzyx M p1, frame_conversion Rzyx M p2]"
  by (simp add: transform_tracker_to_robot_def ttr_set [OF assms(1)] assms nth_simps_num)

lemma radians_90: "radians 90 = pi / 2"
  by (simp add: radians_def)

lemma radians_0: "radians 0 = 0"
  by (simp add: radians_def)

lemma degrees_half_pi: "degrees (pi / 2) = 90"
  by (simp add: degrees_def)

lemma atan2_0_1: "atan2 0 1 = 0"
  by (simp add: atan2_def)

lemma atan2_1_0: "atan2 1 0 = pi / 2"
  by (simp add: atan2_def)

lemma EPS_less_1: "EPS < 1"
  by (simp add: EPS_def)

lemma quarter_turn_matrix:
  "matmul identity4 (matmul [[1, 0, 0, 0], [0, 1, 0, 0], [0, 0, 1, 0], [0, 0, 0, 1]]
      (euler_matrix (radians 90) (radians 0) (radians 0) Rzyx))
   = [[0, -1, 0, 0], [1, 0, 0, 0], [0, 0, 1, 0], [0, 0, 0, 1]]"
  by (simp add: euler_matrix_Rzyx euler_matrix_Sxyz radians_90 radians_0 matmul_translation
      matmul_identity4)

lemma quarter_turn_Rzyx: "frame_conversion Rzyx identity4 [0, 0, 0, 90, 0, 0] = [0, 0, 0, 90, 0, 0]"
  by (simp add: frame_conversion_def nth_simps_num quarter_turn_matrix
      transformation_matrix_to_coordinates_def euler_from_matrix_Rzyx euler_from_matrix_Sxyz
      translation_from_matrix_def atan2_0_1 atan2_1_0 EPS_less_1 degrees_half_pi degrees_def)

lemma quarter_turn_Sxyz: "frame_conversion Sxyz identity4 [0, 0, 0, 90, 0, 0] = [0, 0, 0, 0, 0, 90]"
  by (simp add: frame_conversion_def nth_simps_num quarter_turn_matrix
      transformation_matrix_to_coordinates_def euler_from_matrix_Sxyz
      translation_from_matrix_def atan2_0_1 atan2_1_0 EPS_less_1 degrees_half_pi degrees_def)

lemma is_mat4_identity4: "is_mat4 identity4"
  by (simp add: is_mat4_def identity4_def)

subsection \<open>Claims about the frame conversion and the head centre\<close>

text \<open>
  Claim C1, as the code has it.  For a set 4x4 tracker-to-robot matrix and a sample of
  three six-component poses, the frame conversion of each pose builds the marker's matrix
  under the rotating-ZYX convention, left-multiplies it by the tracker-to-robot matrix,
  and decodes the product under the rotating-ZYX convention again.
\<close>

theorem C1_frame_conversion_rzyx:
  "is_mat4 M \<Longrightarrow> is_pose p0 \<Longrightarrow> is_pose p1 \<Longrightarrow> is_pose p2 \<Longrightarrow>
   transform_tracker_to_robot (Some M) [p0, p1, p2] =
     Inr [frame_conversion Rzyx M p0, frame_conversion Rzyx M p1, frame_conversion Rzyx M p2]"
  by (rule transform_set)

theorem C1_frame_conversion_rzyx_witness:
  "is_mat4 identity4 \<and> is_pose [10, 0, 0, 0, 0, 0] \<and> is_pose [0, 0, 0, 0, 0, 0] \<and>
   is_pose [5, 5, 0, 0, 0, 0] \<and>
   transform_tracker_to_robot (Some identity4) [[10, 0, 0, 0, 0, 0], [0, 0, 0, 0, 0, 0], [5, 5, 0, 0, 0, 0]] =
     Inr [frame_conversion Rzyx identity4 [10, 0, 0, 0, 0, 0],
          frame_conversion Rzyx identity4 [0, 0, 0, 0, 0, 0],
          frame_conversion Rzyx identity4 [5, 5, 0, 0, 0, 0]]"
proof -
  have h: "is_mat4 identity4" "is_pose [10, 0, 0, 0, 0, 0]" "is_pose [0, 0, 0, 0, 0, 0]"
    "is_pose [5, 5, 0, 0, 0, 0]"
    by (simp_all add: is_mat4_identity4 is_pose_def)
  from h C1_frame_conversion_rzyx [OF h] show ?thesis by blast
qed

text \<open>
  The claim as stated fails: with the identity as the tracker-to-robot matrix, a marker
  turned by 90 degrees about the first rotating axis comes back as \<open>(0, 0, 0, 90, 0, 0)\<close>,
  while decoding under static XYZ would give \<open>(0, 0, 0, 0, 0, 90)\<close>.
\<close>

theorem C1_frame_conversion_counterexample:
  "transform_tracker_to_robot (Some identity4)
     [[0, 0, 0, 90, 0, 0], [0, 0, 0, 90, 0, 0], [0, 0, 0, 90, 0, 0]]
   \<noteq> Inr [frame_conversion Sxyz identity4 [0, 0, 0, 90, 0, 0],
           frame_conversion Sxyz identity4 [0, 0, 0, 90, 0, 0],
           frame_conversion Sxyz identity4 [0, 0, 0, 90, 0, 0]]"
proof -
  have "transform_tracker_to_robot (Some identity4)
     [[0, 0, 0, 90, 0, 0], [0, 0, 0, 90, 0, 0], [0, 0, 0, 90, 0, 0]]
     = Inr [[0, 0, 0, 90, 0, 0], [0, 0, 0, 90, 0, 0], [0, 0, 0, 90, 0, 0]]"
    by (simp add: transform_set [OF is_mat4_identity4] is_pose_def quarter_turn_Rzyx)
  then show ?thesis
    by (simp add: quarter_turn_Sxyz)
qed

text \<open>
  Claim C2 on the code.  With the tracker-to-robot matrix unset, the frame conversion does
  not return the input: the matrix product with \<^verbatim>\<open>None\<close> raises \<^verbatim>\<open>ValueError\<close> in the
  conversion of the first pose.  The pass-through branch of the caller, taken when the
  first converted pose is \<^verbatim>\<open>None\<close>, is never reached, since the conversion of a pose
  never returns \<^verbatim>\<open>None\<close>.
\<close>

theorem C2_unset_matrix_raises:
  "transform_tracker_to_robot None [[10, 0, 0, 0, 0, 0], [0, 0, 0, 0, 0, 0], [5, 5, 0, 0, 0, 0]]
     = Inl ValueError \<and>
   transformation_tracker_to_robot m p \<noteq> Inr None"
  by (simp add: transform_unset ttr_never_None)

text \<open>
  Claim C3, as the code has it.  With the three fiducial matrices unset, the head-centre
  estimation tests nothing: for every current head pose the matrix product with \<^verbatim>\<open>None\<close>
  (or, for a malformed pose, the construction of the head's matrix) raises \<^verbatim>\<open>ValueError\<close>,
  an exception that the function does not catch.
\<close>

theorem C3_head_center_unset_raises:
  "matrix_tracker_fiducials s = replicate 3 None \<Longrightarrow> estimate_head_center s ch = Inl ValueError"
  by (rule estimate_head_center_unset)

theorem C3_head_center_unset_raises_witness:
  "matrix_tracker_fiducials TrackerProcessing_init = replicate 3 None \<and>
   estimate_head_center TrackerProcessing_init [1, 2, 3, 4, 5, 6] = Inl ValueError"
proof -
  have h: "matrix_tracker_fiducials TrackerProcessing_init = replicate 3 None"
    by (simp add: TrackerProcessing_init_def)
  from h C3_head_center_unset_raises [OF h] show ?thesis by blast
qed

text \<open>
  The claim as stated fails: on a fresh instance (fiducials unset) the call with the
  zero pose ends in a raised exception and not in a returned status.
\<close>

theorem C3_head_center_counterexample:
  "estimate_head_center TrackerProcessing_init [0, 0, 0, 0, 0, 0] = Inl ValueError"
proof -
  have "compute_marker_transformation [[0, 0, 0, 0, 0, 0]] 0
      = Inr (matmul [[1, 0, 0, 0], [0, 1, 0, 0], [0, 0, 1, 0], [0, 0, 0, 1]]
           (euler_matrix (radians 0) (radians 0) (radians 0) Rzyx))"
    by (simp add: compute_marker_transformation_def c2tm_Sxyz)
  then show ?thesis
    by (simp add: estimate_head_center_def TrackerProcessing_init_def Let_def
        np_matmul_None_right eval_nat_numeral)
qed

subsection \<open>Decoding the matrix of a pose\<close>

lemma cos_neg_upper: assumes "pi / 2 < t" and "t \<le> pi" shows "cos t < 0"
proof -
  have "cos t < cos (pi / 2)"
    by (rule cos_monotone_0_pi) (use assms pi_gt_zero in simp_all)
  then show ?thesis by simp
qed

lemma cos_neg_lower: assumes "- pi < t" and "t < - (pi / 2)" shows "cos t < 0"
proof -
  have "cos (- t) < 0"
    by (rule cos_neg_upper) (use assms in simp_all)
  then show ?thesis by simp
qed

lemma sin_neg_lower: assumes "- pi < t" and "t < - (pi / 2)" shows "sin t < 0"
proof -
  have "0 < sin (- t)"
    by (rule sin_gt_zero) (use assms pi_gt_zero in linarith)+
  then show ?thesis by simp
qed

lemma atan2_pos: "0 < x \<Longrightarrow> atan2 y x = arctan (y / x)"
  by (simp add: atan2_def)

lemma atan2_neg_nonneg: "x < 0 \<Longrightarrow> 0 \<le> y \<Longrightarrow> atan2 y x = arctan (y / x) + pi"
  by (simp add: atan2_def)

lemma atan2_neg_neg: "x < 0 \<Longrightarrow> y < 0 \<Longrightarrow> atan2 y x = arctan (y / x) - pi"
  by (simp add: atan2_def)

lemma atan2_polar:
  assumes r: "0 < r" and lo: "- pi < t" and hi: "t \<le> pi"
  shows "atan2 (r * sin t) (r * cos t) = t"
proof -
  have q: "r * sin t / (r * cos t) = tan t"
    using r by (simp add: tan_def)
  consider (mid) "- (pi / 2) < t" "t < pi / 2" | (up) "pi / 2 < t" | (down) "t < - (pi / 2)"
    | (top) "t = pi / 2" | (bot) "t = - (pi / 2)"
    by linarith
  then show ?thesis
  proof cases
    case mid
    then have "0 < cos t" by (simp add: cos_gt_zero_pi)
    with r have "0 < r * cos t" by simp
    then have "atan2 (r * sin t) (r * cos t) = arctan (r * sin t / (r * cos t))"
      by (rule atan2_pos)
    also have "\<dots> = arctan (tan t)" by (simp only: q)
    also have "\<dots> = t" using mid by (rule arctan_tan)
    finally show ?thesis .
  next
    case up
    with hi have c: "cos t < 0" by (simp add: cos_neg_upper)
    have s: "0 \<le> sin t"
      by (rule sin_ge_zero) (use up hi pi_gt_zero in linarith)+
    from c r have x: "r * cos t < 0" by (simp add: mult_pos_neg)
    from s r have y: "0 \<le> r * sin t" by simp
    have "tan (t - pi + pi) = tan (t - pi)" by (rule tan_periodic_pi)
    then have "tan t = tan (t - pi)" by simp
    moreover have "arctan (tan (t - pi)) = t - pi"
      by (rule arctan_tan) (use up hi in linarith)+
    ultimately have a: "arctan (tan t) = t - pi" by simp
    have "atan2 (r * sin t) (r * cos t) = arctan (r * sin t / (r * cos t)) + pi"
      using x y by (rule atan2_neg_nonneg)
    also have "\<dots> = arctan (tan t) + pi" by (simp only: q)
    finally show ?thesis using a by simp
  next
    case down
    with lo have c: "cos t < 0" by (simp add: cos_neg_lower)
    from down lo have s: "sin t < 0" by (simp add: sin_neg_lower)
    from c r have x: "r * cos t < 0" by (simp add: mult_pos_neg)
    from s r have y: "r * sin t < 0" by (simp add: mult_pos_neg)
    have t: "tan (t + pi) = tan t" by (rule tan_periodic_pi)
    have "arctan (tan (t + pi)) = t + pi"
      by (rule arctan_tan) (use down lo in linarith)+
    with t have a: "arctan (tan t) = t + pi" by simp
    have "atan2 (r * sin t) (r * cos t) = arctan (r * sin t / (r * cos t)) - pi"
      using x y by (rule atan2_neg_neg)
    also have "\<dots> = arctan (tan t) - pi" by (simp only: q)
    finally show ?thesis using a by simp
  next
    case top
    have "atan2 (r * sin (pi / 2)) (r * cos (pi / 2)) = pi / 2"
      using r by (simp add: atan2_def)
    then show ?thesis by (simp only: top)
  next
    case bot
    have "atan2 (r * sin (- (pi / 2))) (r * cos (- (pi / 2))) = - (pi / 2)"
      using r by (simp add: atan2_def)
    then show ?thesis by (simp only: bot)
  qed
qed

lemma atan2_sin_cos:
  assumes "- pi < t" and "t \<le> pi"
  shows "atan2 (sin t) (cos t) = t"
  using atan2_polar [of 1 t] assms by simp

lemma cy_value:
  assumes "0 \<le> c"
  shows "sqrt (c * cos g * (c * cos g) + c * sin g * (c * sin g)) = c"
proof -
  have one: "cos g * cos g + sin g * sin g = 1"
    using sin_cos_squared_add2 [of g] by (simp add: power2_eq_square)
  have "c * cos g * (c * cos g) + c * sin g * (c * sin g) = c * c * (cos g * cos g + sin g * sin g)"
    by (simp only: algebra_simps)
  also have "\<dots> = c * c" by (simp only: one mult_1_right)
  finally have "sqrt (c * cos g * (c * cos g) + c * sin g * (c * sin g)) = sqrt (c * c)"
    by simp
  also have "\<dots> = c" using assms by simp
  finally show ?thesis .
qed

lemma degrees_radians: "degrees (radians x) = x"
  by (simp add: degrees_def radians_def)

lemma radians_range:
  assumes "- 180 < x" and "x \<le> 180"
  shows "- pi < radians x \<and> radians x \<le> pi"
proof -
  have k: "0 < pi / 180" by simp
  have "(- 180) * (pi / 180) < x * (pi / 180)"
    using assms(1) k by (rule mult_strict_right_mono)
  moreover have "x * (pi / 180) \<le> 180 * (pi / 180)"
    using assms(2) k by (intro mult_right_mono) simp_all
  ultimately show ?thesis by (simp add: radians_def)
qed

lemma radians_range_half:
  assumes "- 90 < x" and "x < 90"
  shows "- (pi / 2) < radians x \<and> radians x < pi / 2"
proof -
  have k: "0 < pi / 180" by simp
  have "(- 90) * (pi / 180) < x * (pi / 180)"
    using assms(1) k by (rule mult_strict_right_mono)
  moreover have "x * (pi / 180) < 90 * (pi / 180)"
    using assms(2) k by (rule mult_strict_right_mono)
  ultimately show ?thesis by (simp add: radians_def)
qed

lemma euler_round_trip_Sxyz:
  assumes A: "- pi < A" "A \<le> pi" and B: "- (pi / 2) < B" "B < pi / 2"
    and G: "- pi < G" "G \<le> pi" and lock: "EPS < cos B"
  shows "euler_from_matrix
           (matmul [[1, 0, 0, x], [0, 1, 0, y], [0, 0, 1, z], [0, 0, 0, 1]] (euler_matrix A B G Sxyz))
           Sxyz = (A, B, G)"
proof -
  have cB: "0 < cos B" using B by (simp add: cos_gt_zero_pi)
  have cy: "sqrt (cos B * cos G * (cos B * cos G) + cos B * sin G * (cos B * sin G)) = cos B"
    by (rule cy_value) (use cB in simp)
  have a: "atan2 (cos B * sin A) (cos B * cos A) = A"
    using cB A by (rule atan2_polar)
  have g: "atan2 (cos B * sin G) (cos B * cos G) = G"
    using cB G by (rule atan2_polar)
  have b: "atan2 (sin B) (cos B) = B"
    by (rule atan2_sin_cos) (use B pi_gt_zero in linarith)+
  show ?thesis
    unfolding euler_matrix_Sxyz matmul_translation euler_from_matrix_Sxyz
    by (simp only: Let_def cy lock if_True a g b minus_minus)
qed

lemma euler_round_trip_Rzyx:
  assumes A: "- pi < A" "A \<le> pi" and B: "- (pi / 2) < B" "B < pi / 2"
    and G: "- pi < G" "G \<le> pi" and lock: "EPS < cos B"
  shows "euler_from_matrix
           (matmul [[1, 0, 0, x], [0, 1, 0, y], [0, 0, 1, z], [0, 0, 0, 1]] (euler_matrix A B G Rzyx))
           Rzyx = (A, B, G)"
  unfolding euler_matrix_Rzyx euler_from_matrix_Rzyx
  by (simp add: euler_round_trip_Sxyz [OF G B A lock])

lemma translation_round_trip:
   "translation_from_matrix
      (matmul [[1, 0, 0, x], [0, 1, 0, y], [0, 0, 1, z], [0, 0, 0, 1]] (euler_matrix A B G ax))
    = [x, y, z]"
  by (cases ax)
     (simp_all add: euler_matrix_Rzyx euler_matrix_Sxyz matmul_translation translation_from_matrix_def
       nth_simps_num)

lemma round_trip_principal:
  assumes "- 180 < a" "a \<le> 180" "- 90 < b" "b < 90" "- 180 < g" "g \<le> 180"
    and "EPS < cos (radians b)"
  shows "round_trip ax [x, y, z] [a, b, g] = Inr ([x, y, z], [a, b, g])"
proof -
  note rA = radians_range [OF assms(1,2)]
  note rB = radians_range_half [OF assms(3,4)]
  note rG = radians_range [OF assms(5,6)]
  have e: "euler_from_matrix
           (matmul [[1, 0, 0, x], [0, 1, 0, y], [0, 0, 1, z], [0, 0, 0, 1]]
              (euler_matrix (radians a) (radians b) (radians g) ax)) ax
        = (radians a, radians b, radians g)"
  proof (cases ax)
    case Sxyz
    show ?thesis unfolding Sxyz
      by (rule euler_round_trip_Sxyz) (use rA rB rG assms(7) in simp_all)
  next
    case Rzyx
    show ?thesis unfolding Rzyx
      by (rule euler_round_trip_Rzyx) (use rA rB rG assms(7) in simp_all)
  qed
  show ?thesis
    by (simp add: round_trip_def c2tm_Sxyz transformation_matrix_to_coordinates_def e
        translation_round_trip degrees_radians)
qed

lemma radians_360: "radians 360 = 2 * pi"
  by (simp add: radians_def)

lemma full_turn_matrix:
  "matmul [[1, 0, 0, 0], [0, 1, 0, 0], [0, 0, 1, 0], [0, 0, 0, 1]]
      (euler_matrix (radians 360) (radians 0) (radians 0) Sxyz)
   = [[1, 0, 0, 0], [0, 1, 0, 0], [0, 0, 1, 0], [0, 0, 0, 1]]"
  by (simp add: euler_matrix_Sxyz radians_360 radians_0 matmul_translation)

lemma full_turn_round_trip:
  "round_trip Sxyz [0, 0, 0] [360, 0, 0] = Inr ([0, 0, 0], [0, 0, 0])"
  by (simp add: round_trip_def c2tm_Sxyz full_turn_matrix transformation_matrix_to_coordinates_def
      euler_from_matrix_Sxyz translation_from_matrix_def atan2_0_1 EPS_less_1 degrees_def
      nth_simps_num)

lemma full_turn_not_close: "\<not> close_to (1 / 10 ^ 6) [0, 0, 0] [360, 0, 0]"
  by (simp add: close_to_def)

subsection \<open>The claim about the round trip\<close>

text \<open>
  Claim C7, as the modelled functions have it.  For every position \<open>(x, y, z)\<close>, every
  orientation \<open>(a, b, g)\<close> in degrees with \<open>a\<close> and \<open>g\<close> in \<open>(-180, 180]\<close>, \<open>b\<close> in
  \<open>(-90, 90)\<close> and away from gimbal lock (the cosine of \<open>b\<close> above the threshold of the
  decoder), and each of the two conventions, decoding the matrix built from the pose
  under the same convention returns the pose; over the reals it does so exactly.
\<close>

theorem C7_round_trip_principal:
  "- 180 < a \<Longrightarrow> a \<le> 180 \<Longrightarrow> - 90 < b \<Longrightarrow> b < 90 \<Longrightarrow> - 180 < g \<Longrightarrow> g \<le> 180 \<Longrightarrow>
   EPS < cos (radians b) \<Longrightarrow>
   round_trip ax [x, y, z] [a, b, g] = Inr ([x, y, z], [a, b, g])"
  by (rule round_trip_principal)

theorem C7_round_trip_principal_witness:
  "(- 180 :: real) < 180 \<and> (180 :: real) \<le> 180 \<and> (- 90 :: real) < 60 \<and> (60 :: real) < 90 \<and>
   (- 180 :: real) < - 45 \<and> (- 45 :: real) \<le> 180 \<and> EPS < cos (radians 60) \<and>
   round_trip Rzyx [10, 20, 30] [180, 60, - 45] = Inr ([10, 20, 30], [180, 60, - 45])"
proof -
  have h: "(- 180 :: real) < 180" "(180 :: real) \<le> 180" "(- 90 :: real) < 60" "(60 :: real) < 90"
    "(- 180 :: real) < - 45" "(- 45 :: real) \<le> 180"
    by simp_all
  have r: "radians 60 = pi / 3" by (simp add: radians_def)
  have "EPS < cos (pi / 3)" by (simp add: cos_60 EPS_def)
  then have l: "EPS < cos (radians 60)" by (simp only: r)
  from h l C7_round_trip_principal [OF h l, of Rzyx 10 20 30] show ?thesis by blast
qed

text \<open>
  The claim as stated fails for orientations outside these ranges, which are away from
  gimbal lock all the same: a pose turned by 360 degrees is decoded as the pose turned
  by 0 degrees, which is 360 degrees away from the input.
\<close>

theorem C7_round_trip_counterexample:
  "round_trip Sxyz [0, 0, 0] [360, 0, 0] = Inr ([0, 0, 0], [0, 0, 0]) \<and>
   \<not> close_to (1 / 10 ^ 6) [0, 0, 0] [360, 0, 0]"
  by (simp only: full_turn_round_trip full_turn_not_close simp_thms)

end
